theory Spec2Isabelle
  imports Complex_Main
begin

section \<open>Promotion ledger and moderation queue of the Bhookad backend\<close>

text \<open>
  The handlers of \<^verbatim>\<open>src/routes/vendor-promotions.js\<close> (list, purchase, cancel) and the
  review handler that \<^verbatim>\<open>src/unnamed/part_002\<close> and \<^verbatim>\<open>src/unnamed/part_005\<close> both
  contain, line for line the same, are embedded as functions from the request and the
  stored tables to the HTTP response and the new tables.  Everything a handler reads from
  outside (the clock, the random payment reference, the outcome of each call to the
  database client) is an explicit input, collected in the record \<open>env\<close>.
\<close>

subsection \<open>JavaScript values of a request body\<close>

text \<open>
  A field of \<^verbatim>\<open>req.body\<close> is whatever JSON the client sent; a field that is not sent
  reads as \<^verbatim>\<open>undefined\<close>.  JSON numbers are kept as rationals.
\<close>

datatype jsval =
    JUndefined
  | JNull
  | JBool bool
  | JNum rat
  | JStr string
  | JArr "jsval list"
  | JObj "(string \<times> jsval) list"

text \<open>The result of \<^verbatim>\<open>parseFloat\<close>: a number value.\<close>

datatype number = NaN | PosInfinity | NegInfinity | Finite rat

datatype exn = TypeError | RangeError

text \<open>\<^verbatim>\<open>!v\<close> is true exactly when \<open>v\<close> is not truthy.\<close>

fun truthy :: "jsval \<Rightarrow> bool" where
  "truthy JUndefined = False"
| "truthy JNull = False"
| "truthy (JBool b) = b"
| "truthy (JNum n) = (n \<noteq> 0)"
| "truthy (JStr s) = (s \<noteq> [])"
| "truthy (JArr xs) = True"
| "truthy (JObj kvs) = True"

text \<open>
  \<^verbatim>\<open>parseFloat(v)\<close> first converts \<open>v\<close> to a string.  For an object parsed from JSON
  that conversion throws a TypeError when the object has an own property \<^verbatim>\<open>toString\<close>
  (its value is JSON, so not callable, and the inherited \<^verbatim>\<open>valueOf\<close> returns the object);
  an array joins the strings of its elements, so it throws when one of them does.
\<close>

fun ToString_throws :: "jsval \<Rightarrow> bool" where
  "ToString_throws (JObj kvs) = (''toString'' \<in> set (map fst kvs))"
| "ToString_throws (JArr xs) = (\<exists>x \<in> set xs. ToString_throws x)"
| "ToString_throws JUndefined = False"
| "ToString_throws JNull = False"
| "ToString_throws (JBool b) = False"
| "ToString_throws (JNum n) = False"
| "ToString_throws (JStr s) = False"

text \<open>
  The number that \<^verbatim>\<open>parseFloat\<close> reads off a string (the longest prefix that is a decimal
  literal, rounded to binary64, \<^verbatim>\<open>NaN\<close> when there is none) is the parameter \<open>prefix\<close>:
  no claim depends on it.  A number converts to a string that reads back as itself; the
  strings \<^verbatim>\<open>undefined\<close>, \<^verbatim>\<open>null\<close>, \<^verbatim>\<open>true\<close>, \<^verbatim>\<open>false\<close> and \<^verbatim>\<open>[object Object]\<close> have no
  numeric prefix; the string of an array starts with the string of its first element,
  followed by a comma.
\<close>

fun parseFloat_value :: "(string \<Rightarrow> number) \<Rightarrow> jsval \<Rightarrow> number" where
  "parseFloat_value prefix (JNum n) = Finite n"
| "parseFloat_value prefix (JStr s) = prefix s"
| "parseFloat_value prefix (JArr []) = NaN"
| "parseFloat_value prefix (JArr (x # xs)) = parseFloat_value prefix x"
| "parseFloat_value prefix JUndefined = NaN"
| "parseFloat_value prefix JNull = NaN"
| "parseFloat_value prefix (JBool b) = NaN"
| "parseFloat_value prefix (JObj kvs) = NaN"

definition parseFloat :: "(string \<Rightarrow> number) \<Rightarrow> jsval \<Rightarrow> exn + number" where
  "parseFloat prefix v =
     (if ToString_throws v then Inl TypeError else Inr (parseFloat_value prefix v))"

subsection \<open>Date arithmetic of ECMAScript\<close>

text \<open>
  A \<^verbatim>\<open>Date\<close> holds a time value: milliseconds since 1970-01-01T00:00:00Z.  The functions
  below are those of the ECMAScript specification (section "Time Values and Time
  Range"), with the same names.  \<open>YearFromTime\<close> is specified there as the largest
  year whose first instant is not after \<open>t\<close>; here it is computed from an estimate
  that is off by at most one year, and lemma \<open>YearFromDay_bounds\<close> below shows that
  the result is that year.
\<close>

definition msPerDay :: int where
  "msPerDay = 86400000"

definition Day :: "int \<Rightarrow> int" where
  "Day t = t div msPerDay"

definition TimeWithinDay :: "int \<Rightarrow> int" where
  "TimeWithinDay t = t mod msPerDay"

definition DaysInYear :: "int \<Rightarrow> int" where
  "DaysInYear y =
     (if y mod 4 \<noteq> 0 then 365
      else if y mod 100 \<noteq> 0 then 366
      else if y mod 400 \<noteq> 0 then 365
      else 366)"

definition DayFromYear :: "int \<Rightarrow> int" where
  "DayFromYear y =
     365 * (y - 1970) + (y - 1969) div 4 - (y - 1901) div 100 + (y - 1601) div 400"

definition YearFromDay :: "int \<Rightarrow> int" where
  "YearFromDay d =
     (let y = 1970 + (400 * d) div 146097
      in if d < DayFromYear y then y - 1
         else if DayFromYear (y + 1) \<le> d then y + 1
         else y)"

definition YearFromTime :: "int \<Rightarrow> int" where
  "YearFromTime t = YearFromDay (Day t)"

definition InLeapYear :: "int \<Rightarrow> int" where
  "InLeapYear t = (if DaysInYear (YearFromTime t) = 366 then 1 else 0)"

definition DayWithinYear :: "int \<Rightarrow> int" where
  "DayWithinYear t = Day t - DayFromYear (YearFromTime t)"

text \<open>The month and day tables, on the day within the year \<open>d\<close> and the leap flag \<open>l\<close>.\<close>

definition MonthFromDay :: "int \<Rightarrow> int \<Rightarrow> int" where
  "MonthFromDay l d =
     (if d < 31 then 0
      else if d < 59 + l then 1
      else if d < 90 + l then 2
      else if d < 120 + l then 3
      else if d < 151 + l then 4
      else if d < 181 + l then 5
      else if d < 212 + l then 6
      else if d < 243 + l then 7
      else if d < 273 + l then 8
      else if d < 304 + l then 9
      else if d < 334 + l then 10
      else 11)"

definition DayOfMonthStart :: "int \<Rightarrow> int \<Rightarrow> int" where
  "DayOfMonthStart l m =
     (if m = 0 then 0
      else if m = 1 then 31
      else if m = 2 then 59 + l
      else if m = 3 then 90 + l
      else if m = 4 then 120 + l
      else if m = 5 then 151 + l
      else if m = 6 then 181 + l
      else if m = 7 then 212 + l
      else if m = 8 then 243 + l
      else if m = 9 then 273 + l
      else if m = 10 then 304 + l
      else 334 + l)"

definition MonthFromTime :: "int \<Rightarrow> int" where
  "MonthFromTime t = MonthFromDay (InLeapYear t) (DayWithinYear t)"

definition DateFromTime :: "int \<Rightarrow> int" where
  "DateFromTime t =
     DayWithinYear t - DayOfMonthStart (InLeapYear t) (MonthFromTime t) + 1"

text \<open>
  \<open>MakeDay\<close> carries a month outside 0..11 into the year, takes the day number of the
  first of that month and adds \<open>date - 1\<close>: a date past the end of the month runs on
  into the following month.
\<close>

definition MakeDay :: "int \<Rightarrow> int \<Rightarrow> int \<Rightarrow> int" where
  "MakeDay year month date =
     (let ym = year + month div 12;
          mn = month mod 12;
          l = (if DaysInYear ym = 366 then 1 else 0)
      in DayFromYear ym + DayOfMonthStart l mn + date - 1)"

definition MakeDate :: "int \<Rightarrow> int \<Rightarrow> int" where
  "MakeDate day time = day * msPerDay + time"

text \<open>\<open>None\<close> is the time value \<^verbatim>\<open>NaN\<close> of an invalid \<^verbatim>\<open>Date\<close>.\<close>

definition TimeClip :: "int \<Rightarrow> int option" where
  "TimeClip t = (if 8640000000000000 < \<bar>t\<bar> then None else Some t)"

text \<open>
  Local time.  \<open>tza t isUTC\<close> is \<^verbatim>\<open>LocalTZA(t, isUTC)\<close> of ECMAScript: the offset of the
  host's zone from UTC, in milliseconds, that is in force at \<open>t\<close>, where \<open>t\<close> is a UTC
  time value when \<open>isUTC\<close> is true and a local one otherwise.  It is the constant 0 on
  a host that runs in UTC, and changes with \<open>t\<close> in a zone with daylight saving time.
\<close>

definition LocalTime :: "(int \<Rightarrow> bool \<Rightarrow> int) \<Rightarrow> int \<Rightarrow> int" where
  "LocalTime tza t = t + tza t True"

definition UTC :: "(int \<Rightarrow> bool \<Rightarrow> int) \<Rightarrow> int \<Rightarrow> int" where
  "UTC tza t = t - tza t False"

definition getMonth :: "(int \<Rightarrow> bool \<Rightarrow> int) \<Rightarrow> int \<Rightarrow> int" where
  "getMonth tza t = MonthFromTime (LocalTime tza t)"

text \<open>\<^verbatim>\<open>Date.prototype.setMonth(month)\<close> on a valid date, with no \<^verbatim>\<open>date\<close> argument.\<close>

definition setMonth :: "(int \<Rightarrow> bool \<Rightarrow> int) \<Rightarrow> int \<Rightarrow> int \<Rightarrow> int option" where
  "setMonth tza t month =
     (let lt = LocalTime tza t;
          newDate = MakeDate (MakeDay (YearFromTime lt) month (DateFromTime lt)) (TimeWithinDay lt)
      in TimeClip (UTC tza newDate))"

text \<open>
  The number of days of month \<open>m\<close> (0..11): in a year with leap flag \<open>l\<close>, and in
  year \<open>y\<close>.
\<close>

definition month_length :: "int \<Rightarrow> int \<Rightarrow> int" where
  "month_length l m =
     (if m = 1 then 28 + l else if m = 3 \<or> m = 5 \<or> m = 8 \<or> m = 10 then 30 else 31)"

definition DaysInMonth :: "int \<Rightarrow> int \<Rightarrow> int" where
  "DaysInMonth y m = month_length (if DaysInYear y = 366 then 1 else 0) m"

subsection \<open>Tables, requests and responses\<close>

text \<open>
  A row of \<^verbatim>\<open>vendor_promotions\<close>.  The columns are those of the insert in the purchase
  handler, the key \<^verbatim>\<open>id\<close> that the database assigns, and \<^verbatim>\<open>cancelled_at\<close>.  A timestamp
  column holds the time value that its ISO-8601 text denotes (\<^verbatim>\<open>toISOString\<close> prints a
  valid time value without loss).
\<close>

record promotion =
  id_p :: string
  vendor_id :: string
  package_id :: jsval
  package_name :: jsval
  package_price :: number
  package_duration :: jsval
  start_date :: int
  end_date :: int
  status :: string
  payment_id :: string
  payment_method :: jsval
  payment_status :: string
  created_at :: int
  cancelled_at :: "int option"

text \<open>The featured-state columns of a row of \<^verbatim>\<open>vendors\<close>, and its key.\<close>

record vendor =
  id_v :: string
  is_featured :: bool
  promotion_tier :: jsval
  featured_until :: "int option"
  updated_at :: "int option"

text \<open>
  A row of \<^verbatim>\<open>vlogger_posts\<close>: its key, its owner, and the columns that the review
  handler writes.  \<open>None\<close> is a column that holds no value.
\<close>

record post =
  id_post :: string
  vlogger_id :: string
  status_post :: jsval
  admin_notes :: jsval
  reviewed_at :: "int option"
  reviewed_by :: "string option"
  payout_amount :: "number option"

record world =
  vendor_promotions :: "promotion list"
  vendors :: "vendor list"
  vlogger_posts :: "post list"
  console :: "string list"

text \<open>\<^verbatim>\<open>req.user\<close>, set by the authentication middleware, when there is one.\<close>

record user =
  id_u :: string
  role :: string

text \<open>
  What a handler reads from outside, per request: the \<open>k\<close>-th \<^verbatim>\<open>new Date()\<close> it
  evaluates, the outcome of its \<open>k\<close>-th call to the database client (\<open>None\<close>: the
  call reaches the database and is carried out; \<open>Some m\<close>: it comes back with an error
  whose message is \<open>m\<close>, and nothing is written), the zone offsets of the host, the
  nine base-36 digits drawn for the payment reference, the key the database gives to an
  inserted row, and the numeric-prefix reader of \<^verbatim>\<open>parseFloat\<close>.
\<close>

record env =
  dates :: "nat \<Rightarrow> int"
  faults :: "nat \<Rightarrow> string option"
  LocalTZA :: "int \<Rightarrow> bool \<Rightarrow> int"
  random36 :: string
  generated_id :: string
  StringNumericPrefix :: "string \<Rightarrow> number"

text \<open>The same environment, with the outcome of the \<open>k\<close>-th database call replaced.\<close>

definition with_fault :: "env \<Rightarrow> nat \<Rightarrow> string option \<Rightarrow> env" where
  "with_fault e k x = e\<lparr>faults := (faults e)(k := x)\<rparr>"

text \<open>
  The error object of the database client: the request for a single row found none or
  several, or the call itself failed.
\<close>

datatype gw_error = NotSingleRow | Fault string

text \<open>
  The \<^verbatim>\<open>message\<close> of a response: a literal of the source, the \<^verbatim>\<open>message\<close> of an error
  object, or the template \<^verbatim>\<open>`Post ${status} successfully`\<close>.
\<close>

datatype message = Text string | ErrorMessage gw_error | PostReviewed jsval

record 'a response =
  code :: nat
  success :: bool
  message :: "message option"
  payload :: "'a option"

definition failure :: "nat \<Rightarrow> message \<Rightarrow> 'a response" where
  "failure c m = \<lparr>code = c, success = False, message = Some m, payload = None\<rparr>"

text \<open>\<^verbatim>\<open>req.user?.id\<close>\<close>

definition user_id :: "user option \<Rightarrow> string option" where
  "user_id u = map_option id_u u"

text \<open>
  \<^verbatim>\<open>.single()\<close> of the database client: the data is the row when the result has exactly
  one row; otherwise the data is null and an error is returned.
\<close>

definition single :: "'a list \<Rightarrow> gw_error + 'a" where
  "single rows = (case rows of [r] \<Rightarrow> Inr r | _ \<Rightarrow> Inl NotSingleRow)"

subsection \<open>GET /api/vendor-promotions\<close>

text \<open>
  \<^verbatim>\<open>router.get('/')\<close>, lines 8 to 44 of \<^verbatim>\<open>src/routes/vendor-promotions.js\<close>: the rows of
  the vendor, ordered by \<^verbatim>\<open>created_at\<close> descending (rows with the same \<^verbatim>\<open>created_at\<close> are
  left in the order of the table).  It is the only handler that reads the ledger for a
  vendor.
\<close>

definition get_promotions ::
  "env \<Rightarrow> user option \<Rightarrow> world \<Rightarrow> promotion list response \<times> world" where
  "get_promotions e u w =
     (case user_id u of
        None \<Rightarrow> (failure 401 (Text ''Authentication required''), w)
      | Some vendorId \<Rightarrow>
          if vendorId = [] then (failure 401 (Text ''Authentication required''), w)
          else
            (case faults e 0 of
               Some m \<Rightarrow> (failure 400 (ErrorMessage (Fault m)), w)
             | None \<Rightarrow>
                 let promotions =
                       sort_key (\<lambda>p. - created_at p)
                         (filter (\<lambda>p. vendor_id p = vendorId) (vendor_promotions w))
                 in (\<lparr>code = 200, success = True, message = None,
                      payload = Some promotions\<rparr>, w)))"

subsection \<open>POST /api/vendor-promotions/purchase\<close>

record purchase_body =
  req_package_id :: jsval
  req_package_name :: jsval
  req_package_price :: jsval
  req_package_duration :: jsval
  req_payment_method :: jsval

text \<open>
  \<^verbatim>\<open>router.post('/purchase')\<close>, lines 49 to 164 of \<^verbatim>\<open>src/routes/vendor-promotions.js\<close>,
  in four definitions.  First the end date (lines 90 to 100): the second clock reading,
  moved by \<^verbatim>\<open>setMonth\<close> for one of the three durations and left as it is for any other
  value.
\<close>

definition purchase_endDate :: "env \<Rightarrow> jsval \<Rightarrow> int option" where
  "purchase_endDate e package_duration' =
     (let endDate = dates e 1
      in if package_duration' = JStr ''1 Month''
           then setMonth (LocalTZA e) endDate (getMonth (LocalTZA e) endDate + 1)
         else if package_duration' = JStr ''3 Months''
           then setMonth (LocalTZA e) endDate (getMonth (LocalTZA e) endDate + 3)
         else if package_duration' = JStr ''6 Months''
           then setMonth (LocalTZA e) endDate (getMonth (LocalTZA e) endDate + 6)
         else Some endDate)"

text \<open>
  The query before the insert (lines 75 to 81): the promotion of the vendor whose status
  is active, asked for with \<^verbatim>\<open>.single()\<close>.  Only the data of the answer is read; it is null when the
  call fails and when the rows found are not exactly one.
\<close>

definition existingPromotion :: "env \<Rightarrow> string \<Rightarrow> world \<Rightarrow> promotion option" where
  "existingPromotion e vendorId w =
     (case faults e 0 of
        Some m \<Rightarrow> None
      | None \<Rightarrow>
          (case single (filter (\<lambda>p. vendor_id p = vendorId \<and> status p = ''active'')
                         (vendor_promotions w)) of
             Inl err \<Rightarrow> None
           | Inr p \<Rightarrow> Some p))"

text \<open>
  The row that is inserted (lines 109 to 122), with the key and the empty column the
  database adds.
\<close>

definition purchase_row ::
  "env \<Rightarrow> string \<Rightarrow> purchase_body \<Rightarrow> number \<Rightarrow> int \<Rightarrow> promotion" where
  "purchase_row e vendorId b price endDate =
     \<lparr>id_p = generated_id e,
      vendor_id = vendorId,
      package_id = req_package_id b,
      package_name = req_package_name b,
      package_price = price,
      package_duration = req_package_duration b,
      start_date = dates e 0,
      end_date = endDate,
      status = ''active'',
      payment_id = ''pay_'' @ random36 e,
      payment_method =
        (if req_payment_method b = JUndefined then JStr ''test'' else req_payment_method b),
      payment_status = ''completed'',
      created_at = dates e 2,
      cancelled_at = None\<rparr>"

text \<open>
  The two writes of a purchase (lines 105 to 155): the insert into the ledger, whose
  error fails the request, and the update of the vendor row, whose error is logged.
\<close>

definition purchase_insert ::
  "env \<Rightarrow> string \<Rightarrow> purchase_body \<Rightarrow> number \<Rightarrow> int \<Rightarrow> world
     \<Rightarrow> (promotion \<times> string) response \<times> world" where
  "purchase_insert e vendorId b price endDate w =
     (case faults e 1 of
        Some m \<Rightarrow> (failure 400 (ErrorMessage (Fault m)), w)
      | None \<Rightarrow>
          let promotion' = purchase_row e vendorId b price endDate;
              w1 = w\<lparr>vendor_promotions := vendor_promotions w @ [promotion']\<rparr>;
              created =
                \<lparr>code = 201, success = True,
                 message = Some (Text ''Promotion purchased successfully!''),
                 payload = Some (promotion', ''pay_'' @ random36 e)\<rparr>
          in case faults e 2 of
               Some m \<Rightarrow>
                 (created,
                  w1\<lparr>console := console w1 @ [''Error updating vendor profile:'']\<rparr>)
             | None \<Rightarrow>
                 (created,
                  w1\<lparr>vendors :=
                       map (\<lambda>v. if id_v v = vendorId
                                 then v\<lparr>is_featured := True,
                                        promotion_tier := req_package_id b,
                                        featured_until := Some endDate,
                                        updated_at := Some (dates e 3)\<rparr>
                                 else v)
                           (vendors w1)\<rparr>))"

text \<open>
  The handler.  An exception (of \<^verbatim>\<open>parseFloat\<close>, or of \<^verbatim>\<open>toISOString\<close> on an end date
  that is not a valid time value) is thrown while the row is built, before the insert is
  sent, and is caught (lines 157 to 163): it is logged and answered with status 500.
\<close>

definition purchase ::
  "env \<Rightarrow> user option \<Rightarrow> purchase_body \<Rightarrow> world
     \<Rightarrow> (promotion \<times> string) response \<times> world" where
  "purchase e u b w =
     (case user_id u of
        None \<Rightarrow> (failure 401 (Text ''Authentication required''), w)
      | Some vendorId \<Rightarrow>
          if vendorId = [] then (failure 401 (Text ''Authentication required''), w)
          else if \<not> truthy (req_package_id b) \<or> \<not> truthy (req_package_name b)
                  \<or> \<not> truthy (req_package_price b) \<or> \<not> truthy (req_package_duration b)
            then (failure 400 (Text ''Package details are required''), w)
          else if existingPromotion e vendorId w \<noteq> None
            then (failure 400
                    (Text ''You already have an active promotion. Please wait for it to expire.''),
                  w)
          else
            (case parseFloat (StringNumericPrefix e) (req_package_price b) of
               Inl x \<Rightarrow>
                 (failure 500 (Text ''Server error''),
                  w\<lparr>console := console w @ [''Promotion purchase error:'']\<rparr>)
             | Inr price \<Rightarrow>
                 (case purchase_endDate e (req_package_duration b) of
                    None \<Rightarrow>
                      (failure 500 (Text ''Server error''),
                       w\<lparr>console := console w @ [''Promotion purchase error:'']\<rparr>)
                  | Some endDate \<Rightarrow> purchase_insert e vendorId b price endDate w)))"

subsection \<open>PATCH /api/vendor-promotions/:id/cancel\<close>

text \<open>
  \<^verbatim>\<open>router.patch('/:id/cancel')\<close>, lines 235 to 293 of
  \<^verbatim>\<open>src/routes/vendor-promotions.js\<close>.  The update is sent with \<^verbatim>\<open>.select().single()\<close>: it
  changes the rows that match both filters and returns the changed row; when the rows
  that match are not exactly one, the client returns an error and no row is changed.
  The stored status is not among the filters.
\<close>

definition cancel ::
  "env \<Rightarrow> user option \<Rightarrow> string \<Rightarrow> world \<Rightarrow> promotion response \<times> world" where
  "cancel e u promotion_id w =
     (case user_id u of
        None \<Rightarrow> (failure 401 (Text ''Authentication required''), w)
      | Some vendorId \<Rightarrow>
          if vendorId = [] then (failure 401 (Text ''Authentication required''), w)
          else
            let matches = (\<lambda>p. id_p p = promotion_id \<and> vendor_id p = vendorId);
                cancelled = (\<lambda>p. p\<lparr>status := ''cancelled'', cancelled_at := Some (dates e 0)\<rparr>)
            in case faults e 0 of
                 Some m \<Rightarrow> (failure 400 (ErrorMessage (Fault m)), w)
               | None \<Rightarrow>
                   (case single (filter matches (vendor_promotions w)) of
                      Inl err \<Rightarrow> (failure 400 (ErrorMessage err), w)
                    | Inr p \<Rightarrow>
                        let w1 = w\<lparr>vendor_promotions :=
                                     map (\<lambda>q. if matches q then cancelled q else q)
                                       (vendor_promotions w)\<rparr>;
                            ok =
                              \<lparr>code = 200, success = True,
                               message = Some (Text ''Promotion cancelled successfully''),
                               payload = Some (cancelled p)\<rparr>
                        in case faults e 1 of
                             Some m \<Rightarrow>
                               (ok,
                                w1\<lparr>console :=
                                     console w1 @ [''Error updating vendor profile:'']\<rparr>)
                           | None \<Rightarrow>
                               (ok,
                                w1\<lparr>vendors :=
                                     map (\<lambda>v. if id_v v = vendorId
                                               then v\<lparr>is_featured := False,
                                                      promotion_tier := JNull,
                                                      featured_until := None,
                                                      updated_at := Some (dates e 1)\<rparr>
                                               else v)
                                         (vendors w1)\<rparr>)))"

subsection \<open>PATCH /:id/review (vlogger-posts router) and PATCH /posts/:id/review (admin router)\<close>

text \<open>
  Lines 215 to 276 of \<^verbatim>\<open>src/unnamed/part_002\<close> and lines 129 to 190 of
  \<^verbatim>\<open>src/unnamed/part_005\<close>: the two handlers have the same body.
\<close>

record review_body =
  req_status :: jsval
  req_admin_notes :: jsval
  req_payout_amount :: jsval

text \<open>
  The object \<^verbatim>\<open>updateData\<close>: \<open>u_payout_amount = None\<close> is the object without the
  property \<^verbatim>\<open>payout_amount\<close>.
\<close>

record updateData =
  u_status :: jsval
  u_admin_notes :: jsval
  u_reviewed_at :: int
  u_reviewed_by :: string
  u_payout_amount :: "number option"

definition review_updateData :: "env \<Rightarrow> string \<Rightarrow> review_body \<Rightarrow> exn + updateData" where
  "review_updateData e adminId b =
     (let d = \<lparr>u_status = req_status b,
               u_admin_notes = (if truthy (req_admin_notes b) then req_admin_notes b else JNull),
               u_reviewed_at = dates e 0,
               u_reviewed_by = adminId,
               u_payout_amount = None\<rparr>
      in if req_status b = JStr ''approved'' \<and> truthy (req_payout_amount b)
           then (case parseFloat (StringNumericPrefix e) (req_payout_amount b) of
                   Inl x \<Rightarrow> Inl x
                 | Inr n \<Rightarrow> Inr (d\<lparr>u_payout_amount := Some n\<rparr>))
         else Inr d)"

text \<open>The update writes the columns that \<^verbatim>\<open>updateData\<close> has and leaves the others.\<close>

definition update_post :: "updateData \<Rightarrow> post \<Rightarrow> post" where
  "update_post d p =
     p\<lparr>status_post := u_status d,
       admin_notes := u_admin_notes d,
       reviewed_at := Some (u_reviewed_at d),
       reviewed_by := Some (u_reviewed_by d),
       payout_amount := (case u_payout_amount d of None \<Rightarrow> payout_amount p | Some n \<Rightarrow> Some n)\<rparr>"

definition review ::
  "env \<Rightarrow> user option \<Rightarrow> string \<Rightarrow> review_body \<Rightarrow> world \<Rightarrow> post response \<times> world" where
  "review e u post_id b w =
     (case u of
        None \<Rightarrow> (failure 403 (Text ''Admin access required''), w)
      | Some usr \<Rightarrow>
          if role usr \<noteq> ''admin'' then (failure 403 (Text ''Admin access required''), w)
          else if req_status b \<notin> set [JStr ''approved'', JStr ''rejected'']
            then (failure 400 (Text ''Status must be approved or rejected''), w)
          else
            (case review_updateData e (id_u usr) b of
               Inl x \<Rightarrow>
                 (failure 500 (Text ''Server error''),
                  w\<lparr>console := console w @ [''Post review error:'']\<rparr>)
             | Inr d \<Rightarrow>
                 (case faults e 0 of
                    Some m \<Rightarrow> (failure 400 (ErrorMessage (Fault m)), w)
                  | None \<Rightarrow>
                      (case single (filter (\<lambda>p. id_post p = post_id) (vlogger_posts w)) of
                         Inl err \<Rightarrow> (failure 400 (ErrorMessage err), w)
                       | Inr p \<Rightarrow>
                           (\<lparr>code = 200, success = True,
                             message = Some (PostReviewed (req_status b)),
                             payload = Some (update_post d p)\<rparr>,
                            w\<lparr>vlogger_posts :=
                                 map (\<lambda>q. if id_post q = post_id then update_post d q else q)
                                   (vlogger_posts w)\<rparr>)))))"

subsection \<open>Sequences of ledger operations\<close>

datatype request =
    Purchase env "user option" purchase_body
  | Cancel env "user option" string

fun step :: "world \<Rightarrow> request \<Rightarrow> world" where
  "step w (Purchase e u b) = snd (purchase e u b w)"
| "step w (Cancel e u promotion_id) = snd (cancel e u promotion_id w)"

definition run :: "world \<Rightarrow> request list \<Rightarrow> world" where
  "run w rs = foldl step w rs"

text \<open>The query that looks for an active promotion before the insert is answered.\<close>

fun check_answered :: "request \<Rightarrow> bool" where
  "check_answered (Purchase e u b) = (faults e 0 = None)"
| "check_answered (Cancel e u promotion_id) = True"

text \<open>No vendor has two promotions whose stored status is active.\<close>

definition one_active_per_vendor :: "world \<Rightarrow> bool" where
  "one_active_per_vendor w =
     distinct (map vendor_id (filter (\<lambda>p. status p = ''active'') (vendor_promotions w)))"

subsection \<open>The readings of the specification that the code is compared with\<close>

text \<open>
  The lazy-expiry rule in the words of the specification: an active record whose end
  time is not after \<open>now\<close> is presented as expired.
\<close>

definition spec_effective_status :: "promotion \<Rightarrow> int \<Rightarrow> string" where
  "spec_effective_status p now =
     (if status p = ''active'' \<and> end_date p \<le> now then ''expired'' else status p)"

text \<open>
  "\<open>e\<close> is \<open>s\<close> advanced by exactly \<open>n\<close> calendar months", read on the calendar
  fields in the zone of the host: the month is \<open>n\<close> later, with the carry into the
  year; the time of day is the same; the day of the month is the same, or the last day
  of the month reached when that month is shorter.
\<close>

definition spec_months_later :: "(int \<Rightarrow> bool \<Rightarrow> int) \<Rightarrow> int \<Rightarrow> int \<Rightarrow> int \<Rightarrow> bool" where
  "spec_months_later tza n s e =
     (let ls = LocalTime tza s;
          le = LocalTime tza e;
          M = MonthFromTime ls + n
      in YearFromTime le = YearFromTime ls + M div 12
         \<and> MonthFromTime le = M mod 12
         \<and> DateFromTime le = min (DateFromTime ls) (DaysInMonth (YearFromTime le) (MonthFromTime le))
         \<and> TimeWithinDay le = TimeWithinDay ls)"

text \<open>The duration table of the specification.\<close>

definition spec_duration_months :: "jsval \<Rightarrow> int option" where
  "spec_duration_months d =
     (if d = JStr ''1 Month'' then Some 1
      else if d = JStr ''3 Months'' then Some 3
      else if d = JStr ''6 Months'' then Some 6
      else None)"

subsection \<open>Concrete requests and tables for the examples\<close>

text \<open>
  A host in UTC whose clock reads \<open>t\<close> throughout a request, with a database that
  carries out every call.  1738317600000 is 2025-01-31T10:00:00.000Z, 1736935200000 is
  2025-01-15T10:00:00.000Z, 1740996000000 is 2025-03-03T10:00:00.000Z.
\<close>

definition ex_env :: "int \<Rightarrow> env" where
  "ex_env t =
     \<lparr>dates = (\<lambda>k. t), faults = (\<lambda>k. None), LocalTZA = (\<lambda>t isUTC. 0), random36 = ''k3j9x2m1q'',
      generated_id = ''p1'', StringNumericPrefix = (\<lambda>s. NaN)\<rparr>"

definition ex_vendor_user :: user where
  "ex_vendor_user = \<lparr>id_u = ''v1'', role = ''vendor''\<rparr>"

definition ex_admin :: user where
  "ex_admin = \<lparr>id_u = ''a2'', role = ''admin''\<rparr>"

definition ex_vendor_row :: vendor where
  "ex_vendor_row =
     \<lparr>id_v = ''v1'', is_featured = False, promotion_tier = JNull, featured_until = None,
      updated_at = None\<rparr>"

definition ex_world :: world where
  "ex_world =
     \<lparr>vendor_promotions = [], vendors = [ex_vendor_row], vlogger_posts = [], console = []\<rparr>"

definition ex_body :: "jsval \<Rightarrow> jsval \<Rightarrow> purchase_body" where
  "ex_body price duration =
     \<lparr>req_package_id = JStr ''basic'', req_package_name = JStr ''Basic Boost'',
      req_package_price = price, req_package_duration = duration,
      req_payment_method = JUndefined\<rparr>"

text \<open>A stored promotion of vendor \<open>v1\<close> with the given status, which ended at time 1000.\<close>

definition ex_promotion :: "string \<Rightarrow> promotion" where
  "ex_promotion st =
     \<lparr>id_p = ''p0'', vendor_id = ''v1'', package_id = JStr ''basic'',
      package_name = JStr ''Basic Boost'', package_price = Finite 2999,
      package_duration = JStr ''1 Month'', start_date = 0, end_date = 1000, status = st,
      payment_id = ''pay_000000000'', payment_method = JStr ''test'',
      payment_status = ''completed'', created_at = 0,
      cancelled_at = (if st = ''cancelled'' then Some 500 else None)\<rparr>"

definition ex_ledger :: "string \<Rightarrow> world" where
  "ex_ledger st =
     \<lparr>vendor_promotions = [ex_promotion st], vendors = [ex_vendor_row], vlogger_posts = [],
      console = []\<rparr>"

text \<open>A stored post with the given status and payout, reviewed (if at all) by admin \<open>a1\<close>.\<close>

definition ex_post :: "string \<Rightarrow> number option \<Rightarrow> post" where
  "ex_post st pay =
     \<lparr>id_post = ''post1'', vlogger_id = ''l1'', status_post = JStr st, admin_notes = JNull,
      reviewed_at = (if st = ''pending'' then None else Some 1000),
      reviewed_by = (if st = ''pending'' then None else Some ''a1''),
      payout_amount = pay\<rparr>"

definition ex_queue :: "string \<Rightarrow> number option \<Rightarrow> world" where
  "ex_queue st pay =
     \<lparr>vendor_promotions = [], vendors = [], vlogger_posts = [ex_post st pay], console = []\<rparr>"

definition ex_review :: "string \<Rightarrow> jsval \<Rightarrow> review_body" where
  "ex_review st pay =
     \<lparr>req_status = JStr st, req_admin_notes = JUndefined, req_payout_amount = pay\<rparr>"

text \<open>
  A sequence of ledger operations of vendor \<open>v1\<close> on 2025-01-15: a purchase, a second
  purchase, the cancellation of the promotion \<open>p1\<close> that the first one created, and a
  third purchase, whose row the database gives the key \<open>p2\<close>.
\<close>

definition ex_requests :: "request list" where
  "ex_requests =
     [Purchase (ex_env 1736935200000) (Some ex_vendor_user) (ex_body (JNum 2999) (JStr ''1 Month'')),
      Purchase (ex_env 1736935200000) (Some ex_vendor_user) (ex_body (JNum 7999) (JStr ''3 Months'')),
      Cancel (ex_env 1736935200000) (Some ex_vendor_user) ''p1'',
      Purchase ((ex_env 1736935200000)\<lparr>generated_id := ''p2''\<rparr>) (Some ex_vendor_user)
        (ex_body (JNum 2999) (JStr ''1 Month''))]"

text \<open>
  Two purchases of vendor \<open>v1\<close> on 2025-01-15, one after the other.  The database does not
  answer the query for an active promotion that the second purchase makes (the call fails
  with the message \<open>fetch failed\<close>); it carries out the insert of that purchase and gives
  the row the key \<open>p2\<close>.
\<close>

definition ex_requests_check_fails :: "request list" where
  "ex_requests_check_fails =
     [Purchase (ex_env 1736935200000) (Some ex_vendor_user) (ex_body (JNum 2999) (JStr ''1 Month'')),
      Purchase (with_fault ((ex_env 1736935200000)\<lparr>generated_id := ''p2''\<rparr>) 0 (Some ''fetch failed''))
        (Some ex_vendor_user) (ex_body (JNum 2999) (JStr ''1 Month''))]"

text \<open>
  The offsets of a host in the zone of New York during 2025: five hours behind UTC, and
  four hours behind from 2025-03-09T07:00:00.000Z until 2025-11-02T06:00:00.000Z.  For a
  local time value the change falls at 03:00 and at 02:00 on the local clock of those
  days.
\<close>

definition ex_new_york :: "int \<Rightarrow> bool \<Rightarrow> int" where
  "ex_new_york t isUTC =
     (if isUTC
      then (if 1741503600000 \<le> t \<and> t < 1762063200000 then - 14400000 else - 18000000)
      else (if 1741489200000 \<le> t \<and> t < 1762048800000 then - 14400000 else - 18000000))"

section \<open>Lemmas on the date arithmetic\<close>

subsection \<open>Division and remainder by a positive constant\<close>

lemma div_bounds:
  fixes x c :: int
  assumes "0 < c"
  shows "c * (x div c) \<le> x" and "x < c * (x div c) + c"
proof -
  have "x = c * (x div c) + x mod c" by simp
  moreover have "0 \<le> x mod c" "x mod c < c" using assms by simp_all
  ultimately show "c * (x div c) \<le> x" and "x < c * (x div c) + c" by linarith+
qed

lemma div_step:
  fixes x c :: int
  assumes "0 < c"
  shows "(x + 1) div c = x div c + (if (x + 1) mod c = 0 then 1 else 0)"
proof -
  define q where "q = x div c"
  define r where "r = x mod c"
  have x: "x = c * q + r" and r: "0 \<le> r" "r < c"
    using assms by (simp_all add: q_def r_def)
  show ?thesis
  proof (cases "r + 1 = c")
    case True
    then have e: "x + 1 = c * (q + 1) + 0" using x by (simp add: algebra_simps)
    have "(x + 1) div c = q + 1"
      by (rule int_div_pos_eq [OF e]) (use assms in simp_all)
    moreover have "(x + 1) mod c = 0"
      by (rule int_mod_pos_eq [OF e]) (use assms in simp_all)
    ultimately show ?thesis by (simp add: q_def)
  next
    case False
    then have r1: "0 \<le> r + 1" "r + 1 < c" using r by linarith+
    have e: "x + 1 = c * q + (r + 1)" using x by simp
    have dq: "(x + 1) div c = q"
      by (rule int_div_pos_eq [OF e r1])
    have "(x + 1) mod c = r + 1"
      by (rule int_mod_pos_eq [OF e r1])
    then have "(x + 1) mod c \<noteq> 0" using r by linarith
    then show ?thesis using dq by (simp add: q_def)
  qed
qed

lemma mod_shift:
  fixes y :: int
  shows "(y - c * k) mod c = y mod c"
  by (metis mod_diff_right_eq mod_mult_self1_is_0 diff_zero)

lemma mod_1968: "((y::int) - 1968) mod 4 = y mod 4"
  using mod_shift [of y 4 492] by simp

lemma mod_1900: "((y::int) - 1900) mod 100 = y mod 100"
  using mod_shift [of y 100 19] by simp

lemma mod_1600: "((y::int) - 1600) mod 400 = y mod 400"
  using mod_shift [of y 400 4] by simp

lemma mod_400_100: "(y::int) mod 400 = 0 \<Longrightarrow> y mod 100 = 0"
proof -
  assume "y mod 400 = 0"
  then have "400 dvd y" by (simp add: mod_eq_0_iff_dvd)
  moreover have "(100::int) dvd 400" by simp
  ultimately have "100 dvd y" by (rule dvd_trans [rotated])
  then show ?thesis by (simp add: mod_eq_0_iff_dvd)
qed

lemma mod_100_4: "(y::int) mod 100 = 0 \<Longrightarrow> y mod 4 = 0"
proof -
  assume "y mod 100 = 0"
  then have "100 dvd y" by (simp add: mod_eq_0_iff_dvd)
  moreover have "(4::int) dvd 100" by simp
  ultimately have "4 dvd y" by (rule dvd_trans [rotated])
  then show ?thesis by (simp add: mod_eq_0_iff_dvd)
qed

lemma step4: "((y::int) - 1968) div 4 = (y - 1969) div 4 + (if y mod 4 = 0 then 1 else 0)"
proof -
  have eq: "y - 1969 + 1 = y - 1968" by simp
  show ?thesis using div_step [of 4 "y - 1969"] unfolding eq mod_1968 by simp
qed

lemma step100: "((y::int) - 1900) div 100 = (y - 1901) div 100 + (if y mod 100 = 0 then 1 else 0)"
proof -
  have eq: "y - 1901 + 1 = y - 1900" by simp
  show ?thesis using div_step [of 100 "y - 1901"] unfolding eq mod_1900 by simp
qed

lemma step400: "((y::int) - 1600) div 400 = (y - 1601) div 400 + (if y mod 400 = 0 then 1 else 0)"
proof -
  have eq: "y - 1601 + 1 = y - 1600" by simp
  show ?thesis using div_step [of 400 "y - 1601"] unfolding eq mod_1600 by simp
qed

subsection \<open>Years\<close>

lemma DaysInYear_cases: "DaysInYear y = 365 \<or> DaysInYear y = 366"
  by (simp add: DaysInYear_def)

lemma DayFromYear_Suc: "DayFromYear (y + 1) = DayFromYear y + DaysInYear y"
proof -
  have e: "y + 1 - 1970 = y - 1969" "y + 1 - 1969 = y - 1968" "y + 1 - 1901 = y - 1900"
    "y + 1 - 1601 = y - 1600" by simp_all
  have L: "DayFromYear (y + 1) =
      365 * y - 718685 + (y - 1968) div 4 - (y - 1900) div 100 + (y - 1600) div 400"
    unfolding DayFromYear_def e by simp
  have R: "DayFromYear y =
      365 * y - 719050 + (y - 1969) div 4 - (y - 1901) div 100 + (y - 1601) div 400"
    unfolding DayFromYear_def by simp
  show ?thesis
  proof (cases "y mod 4 = 0")
    case False
    have n100: "y mod 100 \<noteq> 0"
      using False mod_100_4 [of y] by (cases "y mod 100 = 0") simp_all
    have n400: "y mod 400 \<noteq> 0"
      using n100 mod_400_100 [of y] by (cases "y mod 400 = 0") simp_all
    have "DaysInYear y = 365" using False by (simp add: DaysInYear_def)
    then show ?thesis unfolding L R step4 step100 step400 using False n100 n400 by simp
  next
    case True
    show ?thesis
    proof (cases "y mod 100 = 0")
      case False
      have n400: "y mod 400 \<noteq> 0"
        using False mod_400_100 [of y] by (cases "y mod 400 = 0") simp_all
      have "DaysInYear y = 366" using True False by (simp add: DaysInYear_def)
      then show ?thesis unfolding L R step4 step100 step400 using True False n400 by simp
    next
      case h: True
      show ?thesis
      proof (cases "y mod 400 = 0")
        case False
        have "DaysInYear y = 365" using True h False by (simp add: DaysInYear_def)
        then show ?thesis unfolding L R step4 step100 step400 using True h False by simp
      next
        case t: True
        have "DaysInYear y = 366" using True h t by (simp add: DaysInYear_def)
        then show ?thesis unfolding L R step4 step100 step400 using True h t by simp
      qed
    qed
  qed
qed

lemma YearFromDay_bounds:
  "DayFromYear (YearFromDay d) \<le> d \<and> d < DayFromYear (YearFromDay d + 1)"
proof -
  define e where "e = (400 * d) div 146097"
  have e: "146097 * e \<le> 400 * d" "400 * d < 146097 * e + 146097"
    unfolding e_def using div_bounds [of 146097 "400 * d"] by simp_all
  define y where "y = 1970 + e"
  have Y: "YearFromDay d =
       (if d < DayFromYear y then y - 1 else if DayFromYear (y + 1) \<le> d then y + 1 else y)"
    by (simp add: YearFromDay_def Let_def y_def e_def)
  show ?thesis
  proof (cases "d < DayFromYear y")
    case True
    define a where "a = e div 4"
    define b where "b = (e + 68) div 100"
    define c where "c = (e + 368) div 400"
    have a: "4 * a \<le> e" unfolding a_def using div_bounds(1) [of 4 e] by simp
    have b: "e + 68 < 100 * b + 100"
      unfolding b_def using div_bounds(2) [of 100 "e + 68"] by simp
    have c: "400 * c \<le> e + 368"
      unfolding c_def using div_bounds(1) [of 400 "e + 368"] by simp
    have "DayFromYear (y - 1) = 365 * e - 365 + a - b + c"
      by (simp add: DayFromYear_def a_def b_def c_def y_def ac_simps)
    then have "DayFromYear (y - 1) \<le> d" using a b c e by linarith
    then show ?thesis using True Y by simp
  next
    case False
    show ?thesis
    proof (cases "DayFromYear (y + 1) \<le> d")
      case hi: True
      define a where "a = (e + 3) div 4"
      define b where "b = (e + 71) div 100"
      define c where "c = (e + 371) div 400"
      have a: "e + 3 < 4 * a + 4"
        unfolding a_def using div_bounds(2) [of 4 "e + 3"] by simp
      have b: "100 * b \<le> e + 71"
        unfolding b_def using div_bounds(1) [of 100 "e + 71"] by simp
      have c: "e + 371 < 400 * c + 400"
        unfolding c_def using div_bounds(2) [of 400 "e + 371"] by simp
      have "DayFromYear (y + 2) = 365 * e + 730 + a - b + c"
        by (simp add: DayFromYear_def a_def b_def c_def y_def ac_simps)
      then have "d < DayFromYear (y + 2)" using a b c e by linarith
      moreover have "y + 1 + 1 = y + 2" by simp
      ultimately show ?thesis using False hi Y by (simp add: ac_simps)
    next
      case lo: False
      then show ?thesis using False Y by simp
    qed
  qed
qed

lemma DayFromYear_mono: "y \<le> z \<Longrightarrow> DayFromYear y \<le> DayFromYear z"
proof -
  assume yz: "y \<le> z"
  have pos: "0 < DaysInYear x" for x by (simp add: DaysInYear_def)
  have "DayFromYear y \<le> DayFromYear (y + int n)" for n
  proof (induction n)
    case 0
    then show ?case by simp
  next
    case (Suc n)
    have "DayFromYear (y + int (Suc n)) = DayFromYear (y + int n) + DaysInYear (y + int n)"
      using DayFromYear_Suc [of "y + int n"] by (simp add: ac_simps)
    then show ?case using Suc pos [of "y + int n"] by linarith
  qed
  from this [of "nat (z - y)"] yz show ?thesis by simp
qed

lemma YearFromDay_unique:
  assumes "DayFromYear y \<le> d" and "d < DayFromYear (y + 1)"
  shows "YearFromDay d = y"
proof (rule ccontr)
  assume ne: "YearFromDay d \<noteq> y"
  note B = YearFromDay_bounds [of d]
  show False
  proof (cases "YearFromDay d < y")
    case True
    then have "DayFromYear (YearFromDay d + 1) \<le> DayFromYear y"
      by (intro DayFromYear_mono) linarith
    then show False using B assms by linarith
  next
    case False
    then have "DayFromYear (y + 1) \<le> DayFromYear (YearFromDay d)"
      using ne by (intro DayFromYear_mono) linarith
    then show False using B assms by linarith
  qed
qed

subsection \<open>Months and days\<close>

lemma MakeDate_parts:
  assumes "0 \<le> tm" and "tm < msPerDay"
  shows "Day (MakeDate dy tm) = dy" and "TimeWithinDay (MakeDate dy tm) = tm"
proof -
  have e: "MakeDate dy tm = msPerDay * dy + tm" by (simp add: MakeDate_def)
  show "Day (MakeDate dy tm) = dy"
    unfolding Day_def by (rule int_div_pos_eq [OF e assms])
  show "TimeWithinDay (MakeDate dy tm) = tm"
    unfolding TimeWithinDay_def by (rule int_mod_pos_eq [OF e assms])
qed

lemma TimeWithinDay_range: "0 \<le> TimeWithinDay t \<and> TimeWithinDay t < msPerDay"
  by (simp add: TimeWithinDay_def msPerDay_def)

lemma month_cases:
  fixes m :: int
  assumes "0 \<le> m" and "m < 12"
  shows "m = 0 \<or> m = 1 \<or> m = 2 \<or> m = 3 \<or> m = 4 \<or> m = 5 \<or> m = 6 \<or> m = 7
     \<or> m = 8 \<or> m = 9 \<or> m = 10 \<or> m = 11"
  using assms by presburger

lemma MonthFromDay_start:
  assumes "l = 0 \<or> l = 1" and "0 \<le> m" and "m < 12"
    and "1 \<le> dt" and "dt \<le> month_length l m"
  shows "MonthFromDay l (DayOfMonthStart l m + dt - 1) = m"
  using month_cases [OF assms(2,3)] assms(1,4,5)
  by (elim disjE) (simp_all add: MonthFromDay_def DayOfMonthStart_def month_length_def)

lemma month_within_year:
  assumes "l = 0 \<or> l = 1" and "0 \<le> m" and "m < 12"
  shows "0 \<le> DayOfMonthStart l m" and "DayOfMonthStart l m + month_length l m \<le> 365 + l"
  using month_cases [OF assms(2,3)] assms(1)
  by (elim disjE; simp add: DayOfMonthStart_def month_length_def)+

lemma MonthFromDay_range:
  assumes "l = 0 \<or> l = 1" and "0 \<le> d" and "d < 365 + l"
  shows "0 \<le> MonthFromDay l d" and "MonthFromDay l d < 12"
    and "DayOfMonthStart l (MonthFromDay l d) \<le> d"
    and "d < DayOfMonthStart l (MonthFromDay l d) + month_length l (MonthFromDay l d)"
  using assms
  by (auto simp add: MonthFromDay_def DayOfMonthStart_def month_length_def)

lemma DaysInMonth_length:
  "DaysInMonth y m = month_length (if DaysInYear y = 366 then 1 else 0) m"
  by (simp add: DaysInMonth_def)

lemma leap_flag: "(if DaysInYear y = 366 then 1 else 0) = (0::int) \<or>
    (if DaysInYear y = 366 then 1 else 0) = (1::int)"
  by simp

lemma DaysInYear_flag: "DaysInYear y = 365 + (if DaysInYear y = 366 then 1 else 0)"
  using DaysInYear_cases [of y] by auto

text \<open>The fields of a time value that lies \<open>k\<close> days into year \<open>y\<close>.\<close>

lemma fields_of_day_in_year:
  assumes k: "0 \<le> k" "k < DaysInYear y" and tm: "0 \<le> tm" "tm < msPerDay"
  defines "t \<equiv> MakeDate (DayFromYear y + k) tm"
  shows "YearFromTime t = y" and "DayWithinYear t = k"
    and "InLeapYear t = (if DaysInYear y = 366 then 1 else 0)"
proof -
  have D: "Day t = DayFromYear y + k" unfolding t_def by (rule MakeDate_parts(1) [OF tm])
  have "DayFromYear y \<le> Day t" "Day t < DayFromYear (y + 1)"
    using k D DayFromYear_Suc [of y] by linarith+
  then show Y: "YearFromTime t = y"
    unfolding YearFromTime_def by (rule YearFromDay_unique)
  show "DayWithinYear t = k" by (simp add: DayWithinYear_def Y D)
  show "InLeapYear t = (if DaysInYear y = 366 then 1 else 0)" by (simp add: InLeapYear_def Y)
qed

lemma fields_of_date:
  assumes m: "0 \<le> m" "m < 12" and dt: "1 \<le> dt" "dt \<le> DaysInMonth y m"
    and tm: "0 \<le> tm" "tm < msPerDay"
  defines "l \<equiv> (if DaysInYear y = 366 then 1 else 0)"
  defines "t \<equiv> MakeDate (DayFromYear y + DayOfMonthStart l m + dt - 1) tm"
  shows "YearFromTime t = y" and "MonthFromTime t = m" and "DateFromTime t = dt"
    and "TimeWithinDay t = tm"
proof -
  have l: "l = 0 \<or> l = 1" by (simp add: l_def)
  have len: "dt \<le> month_length l m" using dt(2) by (simp add: DaysInMonth_length l_def)
  define k where "k = DayOfMonthStart l m + dt - 1"
  have k0: "0 \<le> k" using month_within_year(1) [OF l m] dt(1) by (simp add: k_def)
  have "k < 365 + l" using month_within_year(2) [OF l m] len by (simp add: k_def)
  then have k1: "k < DaysInYear y" using DaysInYear_flag [of y] by (simp add: l_def)
  have "DayFromYear y + DayOfMonthStart l m + dt - 1 = DayFromYear y + k"
    by (simp add: k_def)
  then have t: "t = MakeDate (DayFromYear y + k) tm" by (simp only: t_def)
  note F = fields_of_day_in_year [OF k0 k1 tm, folded t]
  show "YearFromTime t = y" by (rule F(1))
  have M: "MonthFromDay l k = m"
    unfolding k_def by (rule MonthFromDay_start [OF l m dt(1) len])
  show Mt: "MonthFromTime t = m"
    using M by (simp add: MonthFromTime_def F(2,3) l_def)
  show "DateFromTime t = dt"
    by (simp add: DateFromTime_def Mt F(2,3) k_def l_def)
  show "TimeWithinDay t = tm" unfolding t_def by (rule MakeDate_parts(2) [OF tm])
qed

text \<open>Every time value has a month in 0..11 and a day that exists in that month.\<close>

lemma DayWithinYear_range:
  "0 \<le> DayWithinYear t \<and> DayWithinYear t < DaysInYear (YearFromTime t)"
  using YearFromDay_bounds [of "Day t"] DayFromYear_Suc [of "YearFromTime t"]
  by (simp add: DayWithinYear_def YearFromTime_def)

lemma fields_valid:
  shows "0 \<le> MonthFromTime t" and "MonthFromTime t < 12"
    and "1 \<le> DateFromTime t"
    and "DateFromTime t \<le> DaysInMonth (YearFromTime t) (MonthFromTime t)"
proof -
  define l where "l = InLeapYear t"
  have l: "l = 0 \<or> l = 1" by (simp add: l_def InLeapYear_def)
  have d: "0 \<le> DayWithinYear t" "DayWithinYear t < 365 + l"
    using DayWithinYear_range [of t] DaysInYear_flag [of "YearFromTime t"]
    by (simp_all add: l_def InLeapYear_def)
  note R = MonthFromDay_range [OF l d]
  show "0 \<le> MonthFromTime t" "MonthFromTime t < 12"
    using R(1,2) by (simp_all add: MonthFromTime_def l_def)
  show "1 \<le> DateFromTime t"
    using R(3) by (simp add: DateFromTime_def MonthFromTime_def l_def)
  show "DateFromTime t \<le> DaysInMonth (YearFromTime t) (MonthFromTime t)"
    using R(4) by (simp add: DateFromTime_def MonthFromTime_def DaysInMonth_length l_def InLeapYear_def)
qed

text \<open>
  \<open>setMonth\<close>: the month is advanced in local time, the year takes the carry, and
  the day of the month and the time of day are kept, provided the day exists in the
  month that is reached and the local time reached converts to UTC and back to itself
  (as every local time does in a zone of fixed offset, and every local time outside the
  hour skipped or repeated at a change of the offset does otherwise).
\<close>

lemma setMonth_fields:
  fixes tza :: "int \<Rightarrow> bool \<Rightarrow> int" and t n :: int
  defines "lt \<equiv> LocalTime tza t"
  defines "M \<equiv> MonthFromTime lt + n"
  defines "nd \<equiv> MakeDate (MakeDay (YearFromTime lt) M (DateFromTime lt)) (TimeWithinDay lt)"
  assumes day: "DateFromTime lt \<le> DaysInMonth (YearFromTime lt + M div 12) (M mod 12)"
    and zone: "tza (UTC tza nd) True = tza nd False"
    and res: "setMonth tza t (getMonth tza t + n) = Some u"
  shows "YearFromTime (LocalTime tza u) = YearFromTime lt + M div 12"
    and "MonthFromTime (LocalTime tza u) = M mod 12"
    and "DateFromTime (LocalTime tza u) = DateFromTime lt"
    and "TimeWithinDay (LocalTime tza u) = TimeWithinDay lt"
proof -
  define ym where "ym = YearFromTime lt + M div 12"
  define mn where "mn = M mod 12"
  define l :: int where "l = (if DaysInYear ym = 366 then 1 else 0)"
  have nd: "nd = MakeDate (DayFromYear ym + DayOfMonthStart l mn + DateFromTime lt - 1)
      (TimeWithinDay lt)"
    by (simp add: nd_def MakeDay_def Let_def ym_def mn_def l_def)
  have "setMonth tza t (getMonth tza t + n) = TimeClip (UTC tza nd)"
    by (simp add: setMonth_def getMonth_def Let_def nd_def lt_def M_def)
  with res have "TimeClip (UTC tza nd) = Some u" by simp
  then have u: "u = UTC tza nd" by (simp add: TimeClip_def split: if_splits)
  have lu: "LocalTime tza u = nd"
    unfolding u using zone by (simp add: LocalTime_def UTC_def)
  have mn: "0 \<le> mn" "mn < 12" by (simp_all add: mn_def)
  have dt: "1 \<le> DateFromTime lt" by (rule fields_valid(3))
  have dt2: "DateFromTime lt \<le> DaysInMonth ym mn" using day by (simp add: ym_def mn_def)
  have tm: "0 \<le> TimeWithinDay lt" "TimeWithinDay lt < msPerDay"
    using TimeWithinDay_range [of lt] by simp_all
  note F = fields_of_date [OF mn dt dt2 tm, folded l_def, folded nd]
  show "YearFromTime (LocalTime tza u) = YearFromTime lt + M div 12"
    unfolding lu using F(1) by (simp add: ym_def)
  show "MonthFromTime (LocalTime tza u) = M mod 12"
    unfolding lu using F(2) by (simp add: mn_def)
  show "DateFromTime (LocalTime tza u) = DateFromTime lt"
    unfolding lu by (rule F(3))
  show "TimeWithinDay (LocalTime tza u) = TimeWithinDay lt"
    unfolding lu by (rule F(4))
qed

section \<open>The claims\<close>

lemma ex_env_sel:
  "dates (ex_env t) k = t" "faults (ex_env t) k = None" "LocalTZA (ex_env t) = (\<lambda>t isUTC. 0)"
  "random36 (ex_env t) = ''k3j9x2m1q''" "generated_id (ex_env t) = ''p1''"
  "StringNumericPrefix (ex_env t) = (\<lambda>s. NaN)"
  by (simp_all add: ex_env_def)

lemmas ex_defs = ex_vendor_user_def ex_admin_def ex_vendor_row_def ex_world_def ex_body_def
  ex_promotion_def ex_ledger_def ex_post_def ex_queue_def ex_review_def

lemmas purchase_defs = purchase_def existingPromotion_def purchase_insert_def purchase_row_def
  purchase_endDate_def

subsection \<open>Validation of a purchase (C4)\<close>

text \<open>
  The purchase handler tests the four package fields for presence only.  A price of
  \<open>-5\<close> with the duration "2 Weeks", which is none of the three enumerated values, is
  accepted: the response is 201 and the row is inserted with that price and duration.
\<close>

theorem purchase_unchecked_price_duration_counterexample:
  "code (fst (purchase (ex_env 1738317600000) (Some ex_vendor_user)
            (ex_body (JNum (- 5)) (JStr ''2 Weeks'')) ex_world)) = 201
   \<and> map package_price (vendor_promotions (snd (purchase (ex_env 1738317600000)
            (Some ex_vendor_user) (ex_body (JNum (- 5)) (JStr ''2 Weeks'')) ex_world)))
       = [Finite (- 5)]
   \<and> map package_duration (vendor_promotions (snd (purchase (ex_env 1738317600000)
            (Some ex_vendor_user) (ex_body (JNum (- 5)) (JStr ''2 Weeks'')) ex_world)))
       = [JStr ''2 Weeks'']"
  by (simp add: purchase_defs user_id_def single_def parseFloat_def Let_def ex_env_sel ex_defs)

text \<open>
  Claim C4, as amended.  For every purchase by an authenticated vendor in which
  \<^verbatim>\<open>package_id\<close>, \<^verbatim>\<open>package_name\<close>, \<^verbatim>\<open>package_price\<close> or \<^verbatim>\<open>package_duration\<close> is missing or
  falsy (undefined, null, false, 0 or the empty string), the operation fails with status
  400 and the message "Package details are required", and performs no write: the
  promotions, the vendors and every other table are as before.
\<close>

theorem purchase_requires_package_details:
  assumes "user_id u = Some vendorId" and "vendorId \<noteq> []"
    and "\<not> truthy (req_package_id b) \<or> \<not> truthy (req_package_name b)
         \<or> \<not> truthy (req_package_price b) \<or> \<not> truthy (req_package_duration b)"
  shows "purchase e u b w = (failure 400 (Text ''Package details are required''), w)"
  using assms by (auto simp add: purchase_def Let_def)

theorem purchase_requires_package_details_witness:
  "user_id (Some ex_vendor_user) = Some ''v1'' \<and> ''v1'' \<noteq> []
   \<and> \<not> truthy (req_package_price (ex_body (JNum 0) (JStr ''1 Month'')))
   \<and> purchase (ex_env 1738317600000) (Some ex_vendor_user) (ex_body (JNum 0) (JStr ''1 Month''))
        ex_world
      = (failure 400 (Text ''Package details are required''), ex_world)"
  using purchase_requires_package_details [of "Some ex_vendor_user" "''v1''"
      "ex_body (JNum 0) (JStr ''1 Month'')" "ex_env 1738317600000" ex_world]
  by (simp add: user_id_def ex_defs)

subsection \<open>Validation of a review decision (C5)\<close>

text \<open>
  Claim C5.  For every review call by an admin whose decision is neither exactly
  "approved" nor exactly "rejected", the operation fails with status 400 and the message
  "Status must be approved or rejected", and the stored state is unchanged: the post keeps
  its status, and no \<^verbatim>\<open>reviewed_at\<close>, \<^verbatim>\<open>reviewed_by\<close> or \<^verbatim>\<open>payout_amount\<close> is written.  The
  handler is the one of both review routes.  (A caller who is not an admin is turned
  away before the decision is looked at, with status 403, and nothing is written either.)
\<close>

theorem review_rejects_unknown_decision:
  assumes "role usr = ''admin''"
    and "req_status b \<noteq> JStr ''approved''" and "req_status b \<noteq> JStr ''rejected''"
  shows "review e (Some usr) post_id b w =
           (failure 400 (Text ''Status must be approved or rejected''), w)"
  using assms by (simp add: review_def)

theorem review_rejects_unknown_decision_witness:
  "role ex_admin = ''admin''
   \<and> req_status (ex_review ''Approved'' (JNum 500)) \<noteq> JStr ''approved''
   \<and> req_status (ex_review ''Approved'' (JNum 500)) \<noteq> JStr ''rejected''
   \<and> review (ex_env 1738317600000) (Some ex_admin) ''post1'' (ex_review ''Approved'' (JNum 500))
        (ex_queue ''pending'' None)
      = (failure 400 (Text ''Status must be approved or rejected''), ex_queue ''pending'' None)
   \<and> map status_post (vlogger_posts (ex_queue ''pending'' None)) = [JStr ''pending'']"
  using review_rejects_unknown_decision [of ex_admin "ex_review ''Approved'' (JNum 500)"
      "ex_env 1738317600000" "''post1''" "ex_queue ''pending'' None"]
  by (simp add: ex_defs)

subsection \<open>Reading the ledger (C2)\<close>

text \<open>
  The list handler returns the stored rows of the vendor as they are.  A promotion whose
  stored status is active and whose end time, 1000, is long past is presented with the
  status active, where the lazy-expiry rule of the specification asks for expired.
\<close>

theorem listing_presents_expired_as_active_counterexample:
  "payload (fst (get_promotions (ex_env 1738317600000) (Some ex_vendor_user)
       (ex_ledger ''active''))) = Some [ex_promotion ''active'']
   \<and> status (ex_promotion ''active'') = ''active''
   \<and> end_date (ex_promotion ''active'') \<le> 1738317600000
   \<and> spec_effective_status (ex_promotion ''active'') 1738317600000 = ''expired''"
  by (simp add: get_promotions_def user_id_def spec_effective_status_def Let_def ex_env_sel
      ex_defs)

text \<open>
  Claim C2, as amended.  The read operation of the ledger (there is one, for all the
  promotions of the calling vendor) applies no expiry rule: when the database answers,
  the response is 200 and carries exactly the stored promotion records of the vendor,
  each with its persisted fields and status; so a record whose persisted status is active
  and whose end time is less than or equal to the current time is presented to the
  caller with the status active.  Nothing is written.
\<close>

theorem get_promotions_returns_stored_rows:
  assumes "user_id u = Some vendorId" and "vendorId \<noteq> []" and "faults e 0 = None"
  shows "\<exists>ps. get_promotions e u w =
             (\<lparr>code = 200, success = True, message = None, payload = Some ps\<rparr>, w)
           \<and> set ps = {p \<in> set (vendor_promotions w). vendor_id p = vendorId}
           \<and> length ps = length (filter (\<lambda>p. vendor_id p = vendorId) (vendor_promotions w))
           \<and> (\<forall>p \<in> set (vendor_promotions w).
                 vendor_id p = vendorId \<and> status p = ''active'' \<and> end_date p \<le> now
                 \<longrightarrow> p \<in> set ps \<and> status p = ''active'')"
  using assms by (simp add: get_promotions_def Let_def)

theorem get_promotions_returns_stored_rows_witness:
  "user_id (Some ex_vendor_user) = Some ''v1'' \<and> ''v1'' \<noteq> []
   \<and> faults (ex_env 1738317600000) 0 = None
   \<and> end_date (ex_promotion ''active'') \<le> 1738317600000
   \<and> (\<exists>ps. get_promotions (ex_env 1738317600000) (Some ex_vendor_user) (ex_ledger ''active'') =
             (\<lparr>code = 200, success = True, message = None, payload = Some ps\<rparr>,
              ex_ledger ''active'')
           \<and> ex_promotion ''active'' \<in> set ps \<and> status (ex_promotion ''active'') = ''active'')"
proof -
  have h1: "user_id (Some ex_vendor_user) = Some ''v1''" by (simp add: user_id_def ex_defs)
  have h2: "''v1'' \<noteq> []" by simp
  have h3: "faults (ex_env 1738317600000) 0 = None" by (simp add: ex_env_sel)
  have h4: "end_date (ex_promotion ''active'') \<le> 1738317600000" by (simp add: ex_defs)
  have h5: "ex_promotion ''active'' \<in> set (vendor_promotions (ex_ledger ''active''))"
    "vendor_id (ex_promotion ''active'') = ''v1''" "status (ex_promotion ''active'') = ''active''"
    by (simp_all add: ex_defs)
  from get_promotions_returns_stored_rows [OF h1 h2 h3, of "ex_ledger ''active''" 1738317600000]
  obtain ps where
    "get_promotions (ex_env 1738317600000) (Some ex_vendor_user) (ex_ledger ''active'') =
       (\<lparr>code = 200, success = True, message = None, payload = Some ps\<rparr>, ex_ledger ''active'')"
    and "\<forall>p \<in> set (vendor_promotions (ex_ledger ''active'')).
           vendor_id p = ''v1'' \<and> status p = ''active'' \<and> end_date p \<le> 1738317600000
           \<longrightarrow> p \<in> set ps \<and> status p = ''active''"
    by blast
  then show ?thesis using h1 h2 h3 h4 h5 by blast
qed

subsection \<open>Cancelling (C6)\<close>

text \<open>
  The cancel handler does not look at the stored status.  Cancelling a promotion that is
  already cancelled succeeds again, with status 200, and overwrites \<^verbatim>\<open>cancelled_at\<close>
  (500 before, the time of the second call after).
\<close>

theorem cancel_cancelled_promotion_counterexample:
  "map status (vendor_promotions (ex_ledger ''cancelled'')) = [''cancelled'']
   \<and> map cancelled_at (vendor_promotions (ex_ledger ''cancelled'')) = [Some 500]
   \<and> code (fst (cancel (ex_env 1738317600000) (Some ex_vendor_user) ''p0''
        (ex_ledger ''cancelled''))) = 200
   \<and> success (fst (cancel (ex_env 1738317600000) (Some ex_vendor_user) ''p0''
        (ex_ledger ''cancelled'')))
   \<and> map cancelled_at (vendor_promotions (snd (cancel (ex_env 1738317600000)
        (Some ex_vendor_user) ''p0'' (ex_ledger ''cancelled'')))) = [Some 1738317600000]"
  by (simp add: cancel_def user_id_def single_def Let_def ex_env_sel ex_defs)

text \<open>
  Claim C6, as amended.  Cancel on a promotion id that does not exist, or that is not
  owned by the calling vendor, fails: the response has status 400 (not 404) and carries
  the error of the database client, and no record is modified.  Cancel on a promotion
  that the calling vendor owns does not depend on its stored status: whether it is
  active, expired or already cancelled, the call succeeds with status 200 and returns
  the record with status cancelled and \<^verbatim>\<open>cancelled_at\<close> set to the time of the call.
\<close>

theorem cancel_outcomes:
  assumes "user_id u = Some vendorId" and "vendorId \<noteq> []"
  shows "(filter (\<lambda>p. id_p p = promotion_id \<and> vendor_id p = vendorId) (vendor_promotions w) = []
           \<longrightarrow> snd (cancel e u promotion_id w) = w
               \<and> code (fst (cancel e u promotion_id w)) = 400
               \<and> \<not> success (fst (cancel e u promotion_id w))
               \<and> payload (fst (cancel e u promotion_id w)) = None
               \<and> (faults e 0 = None \<longrightarrow>
                    message (fst (cancel e u promotion_id w)) = Some (ErrorMessage NotSingleRow)))
       \<and> (\<forall>p. faults e 0 = None
             \<and> filter (\<lambda>p. id_p p = promotion_id \<and> vendor_id p = vendorId) (vendor_promotions w) = [p]
           \<longrightarrow> code (fst (cancel e u promotion_id w)) = 200
               \<and> success (fst (cancel e u promotion_id w))
               \<and> payload (fst (cancel e u promotion_id w))
                   = Some (p\<lparr>status := ''cancelled'', cancelled_at := Some (dates e 0)\<rparr>))"
  using assms
  by (auto simp add: cancel_def single_def failure_def Let_def split: option.splits)

theorem cancel_outcomes_witness:
  "user_id (Some ex_vendor_user) = Some ''v1'' \<and> ''v1'' \<noteq> []
   \<and> filter (\<lambda>p. id_p p = ''p9'' \<and> vendor_id p = ''v1'')
        (vendor_promotions (ex_ledger ''active'')) = []
   \<and> snd (cancel (ex_env 1738317600000) (Some ex_vendor_user) ''p9'' (ex_ledger ''active''))
       = ex_ledger ''active''
   \<and> code (fst (cancel (ex_env 1738317600000) (Some ex_vendor_user) ''p9''
        (ex_ledger ''active''))) = 400
   \<and> message (fst (cancel (ex_env 1738317600000) (Some ex_vendor_user) ''p9''
        (ex_ledger ''active''))) = Some (ErrorMessage NotSingleRow)
   \<and> faults (ex_env 1738317600000) 0 = None
   \<and> filter (\<lambda>p. id_p p = ''p0'' \<and> vendor_id p = ''v1'')
        (vendor_promotions (ex_ledger ''active'')) = [ex_promotion ''active'']
   \<and> code (fst (cancel (ex_env 1738317600000) (Some ex_vendor_user) ''p0''
        (ex_ledger ''active''))) = 200
   \<and> payload (fst (cancel (ex_env 1738317600000) (Some ex_vendor_user) ''p0''
        (ex_ledger ''active'')))
       = Some ((ex_promotion ''active'')
                 \<lparr>status := ''cancelled'', cancelled_at := Some 1738317600000\<rparr>)"
  using cancel_outcomes [of "Some ex_vendor_user" "''v1''" "''p9''" "ex_ledger ''active''"
      "ex_env 1738317600000"]
    cancel_outcomes [of "Some ex_vendor_user" "''v1''" "''p0''" "ex_ledger ''active''"
      "ex_env 1738317600000"]
  by (simp add: user_id_def ex_env_sel ex_defs)

subsection \<open>Reviewing a post that is already decided (C7)\<close>

text \<open>
  The review handler does not read the stored status.  A post that admin \<open>a1\<close> approved
  with a payout of 500 is reviewed again by admin \<open>a2\<close> with the decision rejected: the
  call succeeds with status 200 and overwrites the status, \<^verbatim>\<open>reviewed_at\<close> and
  \<^verbatim>\<open>reviewed_by\<close>.
\<close>

theorem review_decided_post_counterexample:
  "map status_post (vlogger_posts (ex_queue ''approved'' (Some (Finite 500)))) = [JStr ''approved'']
   \<and> map reviewed_by (vlogger_posts (ex_queue ''approved'' (Some (Finite 500)))) = [Some ''a1'']
   \<and> code (fst (review (ex_env 1738317600000) (Some ex_admin) ''post1''
         (ex_review ''rejected'' JUndefined) (ex_queue ''approved'' (Some (Finite 500))))) = 200
   \<and> map status_post (vlogger_posts (snd (review (ex_env 1738317600000) (Some ex_admin) ''post1''
         (ex_review ''rejected'' JUndefined) (ex_queue ''approved'' (Some (Finite 500))))))
       = [JStr ''rejected'']
   \<and> map reviewed_by (vlogger_posts (snd (review (ex_env 1738317600000) (Some ex_admin) ''post1''
         (ex_review ''rejected'' JUndefined) (ex_queue ''approved'' (Some (Finite 500))))))
       = [Some ''a2'']
   \<and> map reviewed_at (vlogger_posts (snd (review (ex_env 1738317600000) (Some ex_admin) ''post1''
         (ex_review ''rejected'' JUndefined) (ex_queue ''approved'' (Some (Finite 500))))))
       = [Some 1738317600000]"
  by (simp add: review_def review_updateData_def update_post_def single_def Let_def
      ex_env_sel ex_defs)

text \<open>
  Claim C7, as amended.  A review call by an admin with a valid decision on an existing
  post is carried out whatever the stored status of the post is, also when the post is
  already approved or rejected: it succeeds with status 200 and the stored record takes
  the new status, the new \<^verbatim>\<open>admin_notes\<close> (null when none are given), the time of the call
  as \<^verbatim>\<open>reviewed_at\<close> and the calling admin as \<^verbatim>\<open>reviewed_by\<close>; \<^verbatim>\<open>payout_amount\<close> is
  overwritten when \<^verbatim>\<open>updateData\<close> carries one and is kept otherwise.  The transition from
  pending to a decision is not limited to once per post.
\<close>

theorem review_overwrites_decided_post:
  assumes "role usr = ''admin''"
    and "req_status b = JStr ''approved'' \<or> req_status b = JStr ''rejected''"
    and "review_updateData e (id_u usr) b = Inr d"
    and "faults e 0 = None"
    and "filter (\<lambda>q. id_post q = post_id) (vlogger_posts w) = [p]"
  shows "review e (Some usr) post_id b w =
           (\<lparr>code = 200, success = True, message = Some (PostReviewed (req_status b)),
             payload = Some (update_post d p)\<rparr>,
            w\<lparr>vlogger_posts :=
                 map (\<lambda>q. if id_post q = post_id then update_post d q else q) (vlogger_posts w)\<rparr>)
         \<and> status_post (update_post d p) = req_status b
         \<and> admin_notes (update_post d p)
             = (if truthy (req_admin_notes b) then req_admin_notes b else JNull)
         \<and> reviewed_at (update_post d p) = Some (dates e 0)
         \<and> reviewed_by (update_post d p) = Some (id_u usr)
         \<and> payout_amount (update_post d p)
             = (case u_payout_amount d of None \<Rightarrow> payout_amount p | Some n \<Rightarrow> Some n)"
  using assms
  by (auto simp add: review_def review_updateData_def update_post_def single_def Let_def
      split: if_splits sum.splits)

theorem review_overwrites_decided_post_witness:
  "role ex_admin = ''admin''
   \<and> req_status (ex_review ''approved'' (JNum 700)) = JStr ''approved''
   \<and> review_updateData (ex_env 1738317600000) (id_u ex_admin) (ex_review ''approved'' (JNum 700))
       = Inr \<lparr>u_status = JStr ''approved'', u_admin_notes = JNull,
              u_reviewed_at = 1738317600000, u_reviewed_by = ''a2'',
              u_payout_amount = Some (Finite 700)\<rparr>
   \<and> faults (ex_env 1738317600000) 0 = None
   \<and> filter (\<lambda>q. id_post q = ''post1'') (vlogger_posts (ex_queue ''rejected'' None))
       = [ex_post ''rejected'' None]
   \<and> code (fst (review (ex_env 1738317600000) (Some ex_admin) ''post1''
         (ex_review ''approved'' (JNum 700)) (ex_queue ''rejected'' None))) = 200
   \<and> map status_post (vlogger_posts (snd (review (ex_env 1738317600000) (Some ex_admin)
         ''post1'' (ex_review ''approved'' (JNum 700)) (ex_queue ''rejected'' None))))
       = [JStr ''approved'']
   \<and> map payout_amount (vlogger_posts (snd (review (ex_env 1738317600000) (Some ex_admin)
         ''post1'' (ex_review ''approved'' (JNum 700)) (ex_queue ''rejected'' None))))
       = [Some (Finite 700)]"
proof -
  have h1: "role ex_admin = ''admin''" by (simp add: ex_defs)
  have h2: "req_status (ex_review ''approved'' (JNum 700)) = JStr ''approved''
      \<or> req_status (ex_review ''approved'' (JNum 700)) = JStr ''rejected''"
    by (simp add: ex_defs)
  have h3: "review_updateData (ex_env 1738317600000) (id_u ex_admin)
      (ex_review ''approved'' (JNum 700))
       = Inr \<lparr>u_status = JStr ''approved'', u_admin_notes = JNull,
              u_reviewed_at = 1738317600000, u_reviewed_by = ''a2'',
              u_payout_amount = Some (Finite 700)\<rparr>"
    by (simp add: review_updateData_def parseFloat_def Let_def ex_env_sel ex_defs)
  have h4: "faults (ex_env 1738317600000) 0 = None" by (simp add: ex_env_sel)
  have h5: "filter (\<lambda>q. id_post q = ''post1'') (vlogger_posts (ex_queue ''rejected'' None))
       = [ex_post ''rejected'' None]"
    by (simp add: ex_defs)
  show ?thesis
    using h1 h2 h3 h4 h5 review_overwrites_decided_post [OF h1 h2 h3 h4 h5]
    by (simp add: update_post_def ex_defs)
qed

subsection \<open>Payout of a rejected post (C9)\<close>

text \<open>
  A rejected review writes no \<^verbatim>\<open>payout_amount\<close>, and so does not remove one either.  The
  post approved with a payout of 500 is reviewed again with the decision rejected (and a
  payout of 999 in the request): the updated record that the call returns has the status
  rejected and still contains the payout of 500.
\<close>

theorem rejected_post_with_payout_counterexample:
  "payload (fst (review (ex_env 1738317600000) (Some ex_admin) ''post1''
       (ex_review ''rejected'' (JNum 999)) (ex_queue ''approved'' (Some (Finite 500)))))
     = Some \<lparr>id_post = ''post1'', vlogger_id = ''l1'', status_post = JStr ''rejected'',
             admin_notes = JNull, reviewed_at = Some 1738317600000, reviewed_by = Some ''a2'',
             payout_amount = Some (Finite 500)\<rparr>"
  by (simp add: review_def review_updateData_def update_post_def single_def Let_def
      ex_env_sel ex_defs)

text \<open>
  Claim C9, as amended.  For every review call with the decision rejected, the update
  writes no \<^verbatim>\<open>payout_amount\<close>, even when one is supplied in the request: \<^verbatim>\<open>updateData\<close> has
  no such property, and the \<^verbatim>\<open>payout_amount\<close> of every stored post, and of the updated
  record that is returned, is what was stored before the call.  The updated record
  therefore contains no \<^verbatim>\<open>payout_amount\<close> when the post had none before (as every post
  that was never approved with a payout), and keeps the one it had otherwise.
\<close>

theorem review_rejected_writes_no_payout:
  assumes "req_status b = JStr ''rejected''"
  shows "(\<exists>d. review_updateData e adminId b = Inr d \<and> u_payout_amount d = None)
         \<and> map payout_amount (vlogger_posts (snd (review e u post_id b w)))
             = map payout_amount (vlogger_posts w)
         \<and> (\<forall>p'. payload (fst (review e u post_id b w)) = Some p'
               \<longrightarrow> (\<exists>p \<in> set (vlogger_posts w).
                      id_post p = post_id \<and> payout_amount p' = payout_amount p))"
proof (intro conjI)
  let ?d = "\<lparr>u_status = req_status b,
             u_admin_notes = (if truthy (req_admin_notes b) then req_admin_notes b else JNull),
             u_reviewed_at = dates e 0, u_reviewed_by = adminId, u_payout_amount = None\<rparr>"
  have d: "review_updateData e a b = Inr \<lparr>u_status = req_status b,
             u_admin_notes = (if truthy (req_admin_notes b) then req_admin_notes b else JNull),
             u_reviewed_at = dates e 0, u_reviewed_by = a, u_payout_amount = None\<rparr>" for a
    using assms by (simp add: review_updateData_def Let_def)
  show "\<exists>d. review_updateData e adminId b = Inr d \<and> u_payout_amount d = None"
    using d [of adminId] by simp
  have keep: "payout_amount (update_post dd q) = payout_amount q" if "u_payout_amount dd = None"
    for dd q using that by (simp add: update_post_def)
  have mp: "map payout_amount (map (\<lambda>q. if id_post q = post_id then update_post dd q else q) ps)
      = map payout_amount ps" if "u_payout_amount dd = None" for dd ps
    using keep [OF that] by (induction ps) simp_all
  show "map payout_amount (vlogger_posts (snd (review e u post_id b w)))
             = map payout_amount (vlogger_posts w)"
    using assms d mp
    by (auto simp add: review_def Let_def split: option.splits sum.splits)
  show "\<forall>p'. payload (fst (review e u post_id b w)) = Some p'
               \<longrightarrow> (\<exists>p \<in> set (vlogger_posts w).
                      id_post p = post_id \<and> payout_amount p' = payout_amount p)"
  proof (intro allI impI)
    fix p' assume pl: "payload (fst (review e u post_id b w)) = Some p'"
    then obtain usr p where u: "u = Some usr"
      and s: "single (filter (\<lambda>q. id_post q = post_id) (vlogger_posts w)) = Inr p"
      and p': "p' = update_post \<lparr>u_status = req_status b,
             u_admin_notes = (if truthy (req_admin_notes b) then req_admin_notes b else JNull),
             u_reviewed_at = dates e 0, u_reviewed_by = id_u usr, u_payout_amount = None\<rparr> p"
      using d
      by (auto simp add: review_def failure_def Let_def split: option.splits sum.splits if_splits)
    from s have "filter (\<lambda>q. id_post q = post_id) (vlogger_posts w) = [p]"
      by (auto simp add: single_def split: list.splits)
    then have "p \<in> set (filter (\<lambda>q. id_post q = post_id) (vlogger_posts w))" by simp
    then have "p \<in> set (vlogger_posts w)" "id_post p = post_id" by simp_all
    moreover have "payout_amount p' = payout_amount p" unfolding p' by (rule keep) simp
    ultimately show "\<exists>p \<in> set (vlogger_posts w).
        id_post p = post_id \<and> payout_amount p' = payout_amount p" by blast
  qed
qed

theorem review_rejected_writes_no_payout_witness:
  "req_status (ex_review ''rejected'' (JNum 999)) = JStr ''rejected''
   \<and> map payout_amount (vlogger_posts (ex_queue ''pending'' None)) = [None]
   \<and> map payout_amount (vlogger_posts (snd (review (ex_env 1738317600000) (Some ex_admin)
         ''post1'' (ex_review ''rejected'' (JNum 999)) (ex_queue ''pending'' None)))) = [None]"
  using review_rejected_writes_no_payout [of "ex_review ''rejected'' (JNum 999)"
      "ex_env 1738317600000" "''a2''" "Some ex_admin" "''post1''" "ex_queue ''pending'' None"]
  by (simp add: ex_defs)

subsection \<open>Approving without a payout (C10)\<close>

text \<open>
  An approval with a falsy payout writes no \<^verbatim>\<open>payout_amount\<close>, and so does not clear one
  either.  The post approved with a payout of 500 is approved again with a payout of 0:
  the call succeeds, and the updated record, as returned and as stored, still holds the
  payout of 500; the payout is not stored as absent.
\<close>

theorem approved_again_with_zero_payout_counterexample:
  "code (fst (review (ex_env 1738317600000) (Some ex_admin) ''post1''
       (ex_review ''approved'' (JNum 0)) (ex_queue ''approved'' (Some (Finite 500))))) = 200
   \<and> payload (fst (review (ex_env 1738317600000) (Some ex_admin) ''post1''
       (ex_review ''approved'' (JNum 0)) (ex_queue ''approved'' (Some (Finite 500)))))
     = Some \<lparr>id_post = ''post1'', vlogger_id = ''l1'', status_post = JStr ''approved'',
             admin_notes = JNull, reviewed_at = Some 1738317600000, reviewed_by = Some ''a2'',
             payout_amount = Some (Finite 500)\<rparr>
   \<and> map payout_amount (vlogger_posts (snd (review (ex_env 1738317600000) (Some ex_admin)
       ''post1'' (ex_review ''approved'' (JNum 0)) (ex_queue ''approved'' (Some (Finite 500))))))
     = [Some (Finite 500)]"
  by (simp add: review_def review_updateData_def update_post_def single_def Let_def
      ex_env_sel ex_defs)

text \<open>
  Claim C10, as amended.  For every review call by an admin with the decision approved in
  which \<^verbatim>\<open>payout_amount\<close> is absent, zero or otherwise falsy, on an existing post and with
  the database answering, the operation still succeeds (status 200, not an
  invalid-argument failure) and the update is written without any \<^verbatim>\<open>payout_amount\<close>
  property: \<^verbatim>\<open>updateData\<close> has none; the post is stored, and returned, with the status
  approved, the admin notes of the call (null when none are given), the time of the call
  as \<^verbatim>\<open>reviewed_at\<close> and the calling admin as \<^verbatim>\<open>reviewed_by\<close>, every other post is left as
  it was, and the \<^verbatim>\<open>payout_amount\<close> of the post stays what it was before the call: absent
  for a post that had none, the earlier amount for a post that was approved before with a
  payout.  A supplied payout of 0 is treated the same as no payout: the outcome is that
  of the same call with \<^verbatim>\<open>payout_amount\<close> not sent.
\<close>

theorem review_approved_falsy_payout:
  assumes "role usr = ''admin''"
    and "req_status b = JStr ''approved''"
    and "\<not> truthy (req_payout_amount b)"
    and "faults e 0 = None"
    and "filter (\<lambda>q. id_post q = post_id) (vlogger_posts w) = [p]"
  shows "review_updateData e (id_u usr) b =
           Inr \<lparr>u_status = JStr ''approved'',
                u_admin_notes = (if truthy (req_admin_notes b) then req_admin_notes b else JNull),
                u_reviewed_at = dates e 0,
                u_reviewed_by = id_u usr,
                u_payout_amount = None\<rparr>
         \<and> review e (Some usr) post_id b w =
             (\<lparr>code = 200, success = True, message = Some (PostReviewed (JStr ''approved'')),
               payload =
                 Some (p\<lparr>status_post := JStr ''approved'',
                         admin_notes :=
                           (if truthy (req_admin_notes b) then req_admin_notes b else JNull),
                         reviewed_at := Some (dates e 0),
                         reviewed_by := Some (id_u usr)\<rparr>)\<rparr>,
              w\<lparr>vlogger_posts :=
                   map (\<lambda>q. if id_post q = post_id
                             then q\<lparr>status_post := JStr ''approved'',
                                    admin_notes :=
                                      (if truthy (req_admin_notes b) then req_admin_notes b
                                       else JNull),
                                    reviewed_at := Some (dates e 0),
                                    reviewed_by := Some (id_u usr)\<rparr>
                             else q)
                     (vlogger_posts w)\<rparr>)
         \<and> map payout_amount (vlogger_posts (snd (review e (Some usr) post_id b w)))
             = map payout_amount (vlogger_posts w)
         \<and> review e (Some usr) post_id b w
             = review e (Some usr) post_id (b\<lparr>req_payout_amount := JUndefined\<rparr>) w"
proof -
  let ?d = "\<lparr>u_status = JStr ''approved'',
              u_admin_notes = (if truthy (req_admin_notes b) then req_admin_notes b else JNull),
              u_reviewed_at = dates e 0, u_reviewed_by = id_u usr, u_payout_amount = None\<rparr>"
  let ?upd = "\<lambda>q. q\<lparr>status_post := JStr ''approved'',
                       admin_notes :=
                         (if truthy (req_admin_notes b) then req_admin_notes b else JNull),
                       reviewed_at := Some (dates e 0),
                       reviewed_by := Some (id_u usr)\<rparr>"
  have d: "review_updateData e (id_u usr) b = Inr ?d"
    using assms(2,3) by (simp add: review_updateData_def Let_def)
  have d': "review_updateData e (id_u usr) (b\<lparr>req_payout_amount := JUndefined\<rparr>) = Inr ?d"
    using assms(2) by (simp add: review_updateData_def Let_def)
  have up: "update_post ?d q = ?upd q" for q
    by (simp add: update_post_def)
  have r: "review e (Some usr) post_id b w =
             (\<lparr>code = 200, success = True, message = Some (PostReviewed (JStr ''approved'')),
               payload = Some (?upd p)\<rparr>,
              w\<lparr>vlogger_posts :=
                   map (\<lambda>q. if id_post q = post_id then ?upd q else q) (vlogger_posts w)\<rparr>)"
    using assms(1,2,4,5) by (simp add: review_def d up single_def)
  have r': "review e (Some usr) post_id (b\<lparr>req_payout_amount := JUndefined\<rparr>) w =
             (\<lparr>code = 200, success = True, message = Some (PostReviewed (JStr ''approved'')),
               payload = Some (?upd p)\<rparr>,
              w\<lparr>vlogger_posts :=
                   map (\<lambda>q. if id_post q = post_id then ?upd q else q) (vlogger_posts w)\<rparr>)"
    using assms(1,2,4,5) by (simp add: review_def d' up single_def)
  have m: "map payout_amount (map (\<lambda>q. if id_post q = post_id then ?upd q else q) ps)
      = map payout_amount ps" for ps
    by (induction ps) simp_all
  show ?thesis
    unfolding r' unfolding r using d m by simp
qed

theorem review_approved_falsy_payout_witness:
  "role ex_admin = ''admin''
   \<and> req_status (ex_review ''approved'' (JNum 0)) = JStr ''approved''
   \<and> \<not> truthy (req_payout_amount (ex_review ''approved'' (JNum 0)))
   \<and> faults (ex_env 1738317600000) 0 = None
   \<and> filter (\<lambda>q. id_post q = ''post1'') (vlogger_posts (ex_queue ''pending'' None))
       = [ex_post ''pending'' None]
   \<and> review (ex_env 1738317600000) (Some ex_admin) ''post1'' (ex_review ''approved'' (JNum 0))
        (ex_queue ''pending'' None)
      = (\<lparr>code = 200, success = True, message = Some (PostReviewed (JStr ''approved'')),
          payload = Some \<lparr>id_post = ''post1'', vlogger_id = ''l1'',
                           status_post = JStr ''approved'', admin_notes = JNull,
                           reviewed_at = Some 1738317600000, reviewed_by = Some ''a2'',
                           payout_amount = None\<rparr>\<rparr>,
         \<lparr>vendor_promotions = [], vendors = [],
          vlogger_posts = [\<lparr>id_post = ''post1'', vlogger_id = ''l1'',
                             status_post = JStr ''approved'', admin_notes = JNull,
                             reviewed_at = Some 1738317600000, reviewed_by = Some ''a2'',
                             payout_amount = None\<rparr>],
          console = []\<rparr>)"
proof -
  have h1: "role ex_admin = ''admin''" by (simp add: ex_defs)
  have h2: "req_status (ex_review ''approved'' (JNum 0)) = JStr ''approved''"
    by (simp add: ex_defs)
  have h3: "\<not> truthy (req_payout_amount (ex_review ''approved'' (JNum 0)))"
    by (simp add: ex_defs)
  have h4: "faults (ex_env 1738317600000) 0 = None" by (simp add: ex_env_sel)
  have h5: "filter (\<lambda>q. id_post q = ''post1'') (vlogger_posts (ex_queue ''pending'' None))
       = [ex_post ''pending'' None]"
    by (simp add: ex_defs)
  show ?thesis
    using h1 h2 h3 h4 h5 review_approved_falsy_payout [OF h1 h2 h3 h4 h5]
    by (simp add: ex_env_sel ex_defs)
qed

subsection \<open>The phases of a purchase\<close>

lemma with_fault_sel:
  "dates (with_fault e k x) = dates e" "LocalTZA (with_fault e k x) = LocalTZA e"
  "random36 (with_fault e k x) = random36 e" "generated_id (with_fault e k x) = generated_id e"
  "StringNumericPrefix (with_fault e k x) = StringNumericPrefix e"
  "faults (with_fault e k x) k = x" "j \<noteq> k \<Longrightarrow> faults (with_fault e k x) j = faults e j"
  by (simp_all add: with_fault_def)

lemma purchase_endDate_with_fault:
  "purchase_endDate (with_fault e k x) d = purchase_endDate e d"
  by (simp add: purchase_endDate_def with_fault_sel Let_def)

lemma existingPromotion_with_fault:
  "k \<noteq> 0 \<Longrightarrow> existingPromotion (with_fault e k x) v w = existingPromotion e v w"
  by (simp add: existingPromotion_def with_fault_sel)

lemma purchase_row_with_fault:
  "purchase_row (with_fault e k x) v b price endDate = purchase_row e v b price endDate"
  by (simp add: purchase_row_def with_fault_sel)

lemma purchase_insert_failed:
  "faults e 1 = Some m \<Longrightarrow>
     purchase_insert e v b price endDate w = (failure 400 (ErrorMessage (Fault m)), w)"
  by (simp add: purchase_insert_def)

lemma purchase_insert_done:
  assumes "faults e 1 = None"
  shows "fst (purchase_insert e v b price endDate w) =
           \<lparr>code = 201, success = True,
            message = Some (Text ''Promotion purchased successfully!''),
            payload = Some (purchase_row e v b price endDate, ''pay_'' @ random36 e)\<rparr>"
    and "vendor_promotions (snd (purchase_insert e v b price endDate w))
           = vendor_promotions w @ [purchase_row e v b price endDate]"
    and "vlogger_posts (snd (purchase_insert e v b price endDate w)) = vlogger_posts w"
    and "faults e 2 = Some m \<Longrightarrow>
           vendors (snd (purchase_insert e v b price endDate w)) = vendors w
           \<and> console (snd (purchase_insert e v b price endDate w))
               = console w @ [''Error updating vendor profile:'']"
  using assms by (simp_all add: purchase_insert_def Let_def split: option.splits)

lemma purchase_insert_code:
  "code (fst (purchase_insert e v b price endDate w)) = 201 \<longleftrightarrow> faults e 1 = None"
  by (cases "faults e 1") (simp_all add: purchase_insert_failed purchase_insert_done failure_def)

text \<open>A purchase that answers 201 has passed every check and reached the insert.\<close>

lemma purchase_created:
  assumes "code (fst (purchase e u b w)) = 201"
  obtains vendorId price endDate where
    "user_id u = Some vendorId" and "vendorId \<noteq> []"
    and "existingPromotion e vendorId w = None"
    and "parseFloat (StringNumericPrefix e) (req_package_price b) = Inr price"
    and "purchase_endDate e (req_package_duration b) = Some endDate"
    and "faults e 1 = None"
    and "purchase e u b w = purchase_insert e vendorId b price endDate w"
proof -
  from assms obtain vendorId where v: "user_id u = Some vendorId"
    by (cases "user_id u") (simp_all add: purchase_def failure_def)
  from assms v have ne: "vendorId \<noteq> []"
    by (cases "vendorId = []") (simp_all add: purchase_def failure_def)
  from assms v ne have tr: "truthy (req_package_id b)" "truthy (req_package_name b)"
    "truthy (req_package_price b)" "truthy (req_package_duration b)"
    by (auto simp add: purchase_def failure_def split: if_splits)
  from assms v ne tr have ex: "existingPromotion e vendorId w = None"
    by (cases "existingPromotion e vendorId w") (simp_all add: purchase_def failure_def)
  from assms v ne tr ex obtain price where
    pf: "parseFloat (StringNumericPrefix e) (req_package_price b) = Inr price"
    by (cases "parseFloat (StringNumericPrefix e) (req_package_price b)")
      (simp_all add: purchase_def failure_def)
  from assms v ne tr ex pf obtain endDate where
    ed: "purchase_endDate e (req_package_duration b) = Some endDate"
    by (cases "purchase_endDate e (req_package_duration b)")
      (simp_all add: purchase_def failure_def)
  have eq: "purchase e u b w = purchase_insert e vendorId b price endDate w"
    using v ne tr ex pf ed by (simp add: purchase_def)
  with assms have f1: "faults e 1 = None" by (simp add: purchase_insert_code)
  show thesis by (rule that [OF v ne ex pf ed f1 eq])
qed

lemma purchase_with_fault_2:
  "fst (purchase (with_fault e 2 x) u b w) = fst (purchase e u b w)"
  "vendor_promotions (snd (purchase (with_fault e 2 x) u b w))
     = vendor_promotions (snd (purchase e u b w))"
proof -
  have I: "fst (purchase_insert (with_fault e 2 x) v b price endDate w)
       = fst (purchase_insert e v b price endDate w)
     \<and> vendor_promotions (snd (purchase_insert (with_fault e 2 x) v b price endDate w))
       = vendor_promotions (snd (purchase_insert e v b price endDate w))"
    for v price endDate
    by (simp add: purchase_insert_def purchase_row_with_fault with_fault_sel Let_def
        split: option.splits)
  show "fst (purchase (with_fault e 2 x) u b w) = fst (purchase e u b w)"
    by (simp add: purchase_def existingPromotion_with_fault purchase_endDate_with_fault
        with_fault_sel I split: option.splits sum.splits)
  show "vendor_promotions (snd (purchase (with_fault e 2 x) u b w))
     = vendor_promotions (snd (purchase e u b w))"
    by (simp add: purchase_def existingPromotion_with_fault purchase_endDate_with_fault
        with_fault_sel I split: option.splits sum.splits)
qed

lemma cancel_with_fault_1:
  "fst (cancel (with_fault e 1 x) u promotion_id w) = fst (cancel e u promotion_id w)"
  "vendor_promotions (snd (cancel (with_fault e 1 x) u promotion_id w))
     = vendor_promotions (snd (cancel e u promotion_id w))"
  by (simp_all add: cancel_def with_fault_sel Let_def split: option.splits sum.splits)

lemma cancel_done:
  assumes "code (fst (cancel e u promotion_id w)) = 200" and "faults e 1 = Some m"
  shows "success (fst (cancel e u promotion_id w))"
    and "\<exists>p. payload (fst (cancel e u promotion_id w)) = Some p
           \<and> p \<in> set (vendor_promotions (snd (cancel e u promotion_id w)))
           \<and> status p = ''cancelled''"
    and "vendors (snd (cancel e u promotion_id w)) = vendors w"
    and "console (snd (cancel e u promotion_id w))
           = console w @ [''Error updating vendor profile:'']"
proof -
  from assms(1) obtain vendorId where v: "user_id u = Some vendorId"
    by (cases "user_id u") (simp_all add: cancel_def failure_def)
  from assms(1) v have ne: "vendorId \<noteq> []"
    by (cases "vendorId = []") (simp_all add: cancel_def failure_def)
  from assms(1) v ne have f0: "faults e 0 = None"
    by (cases "faults e 0") (simp_all add: cancel_def failure_def Let_def)
  define hit :: "promotion \<Rightarrow> bool"
    where "hit = (\<lambda>p. id_p p = promotion_id \<and> vendor_id p = vendorId)"
  from assms(1) v ne f0 obtain p where
    s: "single (filter hit (vendor_promotions w)) = Inr p"
    by (cases "single (filter hit (vendor_promotions w))")
      (simp_all add: cancel_def failure_def Let_def hit_def)
  then have one: "filter hit (vendor_promotions w) = [p]"
    by (auto simp add: single_def split: list.splits)
  then have "p \<in> set (filter hit (vendor_promotions w))" by simp
  then have pin: "p \<in> set (vendor_promotions w)" and ph: "hit p" by simp_all
  let ?c = "\<lambda>p. p\<lparr>status := ''cancelled'', cancelled_at := Some (dates e 0)\<rparr>"
  have R: "cancel e u promotion_id w =
      (\<lparr>code = 200, success = True, message = Some (Text ''Promotion cancelled successfully''),
        payload = Some (?c p)\<rparr>,
       w\<lparr>vendor_promotions := map (\<lambda>q. if hit q then ?c q else q) (vendor_promotions w),
          console := console w @ [''Error updating vendor profile:'']\<rparr>)"
    using v ne f0 s assms(2) by (simp add: cancel_def Let_def hit_def)
  show "success (fst (cancel e u promotion_id w))" by (simp add: R)
  show "vendors (snd (cancel e u promotion_id w)) = vendors w" by (simp add: R)
  show "console (snd (cancel e u promotion_id w))
           = console w @ [''Error updating vendor profile:'']" by (simp add: R)
  have "?c p \<in> set (map (\<lambda>q. if hit q then ?c q else q) (vendor_promotions w))"
    using pin ph by (force simp add: image_iff)
  then show "\<exists>p. payload (fst (cancel e u promotion_id w)) = Some p
           \<and> p \<in> set (vendor_promotions (snd (cancel e u promotion_id w)))
           \<and> status p = ''cancelled''"
    by (simp add: R)
qed

subsection \<open>Failure of the featured-state write (C8)\<close>

lemma ex_endDate_jan31:
  "purchase_endDate (ex_env 1738317600000) (JStr ''1 Month'') = Some 1740996000000"
  unfolding purchase_endDate_def ex_env_def by code_simp

lemma ex_endDate_jan15:
  "purchase_endDate (ex_env 1736935200000) (JStr ''1 Month'') = Some 1739613600000"
  unfolding purchase_endDate_def ex_env_def by code_simp

text \<open>
  Claim C8.  In a purchase the write to the vendor row is the third call to the database
  client (call 2), in a cancel it is the second (call 1).  Whether that call fails does
  not change the reported outcome: the response of the operation is the same with the call
  failing, with any error \<open>m\<close>, as with the call going through, and so is the ledger.
  When the primary write has succeeded (the response is 201 for a purchase, 200 for a
  cancel) and the secondary write fails, the response reports success and carries the
  committed promotion record, the vendors table is left as it was, and the failure
  shows only as one line on the console.
\<close>

theorem secondary_write_failure_is_swallowed:
  "fst (purchase (with_fault e 2 (Some m)) u b w) = fst (purchase (with_fault e 2 None) u b w)
   \<and> vendor_promotions (snd (purchase (with_fault e 2 (Some m)) u b w))
       = vendor_promotions (snd (purchase (with_fault e 2 None) u b w))
   \<and> (code (fst (purchase (with_fault e 2 None) u b w)) = 201
        \<longrightarrow> success (fst (purchase (with_fault e 2 (Some m)) u b w))
            \<and> (\<exists>p. payload (fst (purchase (with_fault e 2 (Some m)) u b w))
                       = Some (p, ''pay_'' @ random36 e)
                   \<and> vendor_promotions (snd (purchase (with_fault e 2 (Some m)) u b w))
                       = vendor_promotions w @ [p])
            \<and> vendors (snd (purchase (with_fault e 2 (Some m)) u b w)) = vendors w
            \<and> console (snd (purchase (with_fault e 2 (Some m)) u b w))
                = console w @ [''Error updating vendor profile:''])
   \<and> fst (cancel (with_fault e 1 (Some m)) u promotion_id w)
       = fst (cancel (with_fault e 1 None) u promotion_id w)
   \<and> vendor_promotions (snd (cancel (with_fault e 1 (Some m)) u promotion_id w))
       = vendor_promotions (snd (cancel (with_fault e 1 None) u promotion_id w))
   \<and> (code (fst (cancel (with_fault e 1 None) u promotion_id w)) = 200
        \<longrightarrow> success (fst (cancel (with_fault e 1 (Some m)) u promotion_id w))
            \<and> (\<exists>p. payload (fst (cancel (with_fault e 1 (Some m)) u promotion_id w)) = Some p
                   \<and> p \<in> set (vendor_promotions
                               (snd (cancel (with_fault e 1 (Some m)) u promotion_id w)))
                   \<and> status p = ''cancelled'')
            \<and> vendors (snd (cancel (with_fault e 1 (Some m)) u promotion_id w)) = vendors w
            \<and> console (snd (cancel (with_fault e 1 (Some m)) u promotion_id w))
                = console w @ [''Error updating vendor profile:''])"
proof -
  let ?bad = "with_fault e 2 (Some m)" and ?good = "with_fault e 2 None"
  have P1: "fst (purchase ?bad u b w) = fst (purchase ?good u b w)"
    by (simp only: purchase_with_fault_2)
  have P2: "vendor_promotions (snd (purchase ?bad u b w))
       = vendor_promotions (snd (purchase ?good u b w))"
    by (simp only: purchase_with_fault_2)
  have P3: "success (fst (purchase ?bad u b w))
            \<and> (\<exists>p. payload (fst (purchase ?bad u b w)) = Some (p, ''pay_'' @ random36 e)
                   \<and> vendor_promotions (snd (purchase ?bad u b w)) = vendor_promotions w @ [p])
            \<and> vendors (snd (purchase ?bad u b w)) = vendors w
            \<and> console (snd (purchase ?bad u b w))
                = console w @ [''Error updating vendor profile:'']"
    if ok: "code (fst (purchase ?good u b w)) = 201"
  proof -
    from ok P1 have "code (fst (purchase ?bad u b w)) = 201" by simp
    then obtain vendorId price endDate where
      f1: "faults ?bad 1 = None"
      and eq: "purchase ?bad u b w = purchase_insert ?bad vendorId b price endDate w"
      by (rule purchase_created)
    have f2: "faults ?bad 2 = Some m" by (simp add: with_fault_sel)
    show ?thesis
      unfolding eq
      using purchase_insert_done(1,2) [OF f1, of vendorId b price endDate w]
        purchase_insert_done(4) [OF f1 f2, of vendorId b price endDate w]
      by (simp add: with_fault_sel)
  qed
  let ?cbad = "with_fault e 1 (Some m)" and ?cgood = "with_fault e 1 None"
  have C1: "fst (cancel ?cbad u promotion_id w) = fst (cancel ?cgood u promotion_id w)"
    by (simp only: cancel_with_fault_1)
  have C2: "vendor_promotions (snd (cancel ?cbad u promotion_id w))
       = vendor_promotions (snd (cancel ?cgood u promotion_id w))"
    by (simp only: cancel_with_fault_1)
  have C3: "success (fst (cancel ?cbad u promotion_id w))
            \<and> (\<exists>p. payload (fst (cancel ?cbad u promotion_id w)) = Some p
                   \<and> p \<in> set (vendor_promotions (snd (cancel ?cbad u promotion_id w)))
                   \<and> status p = ''cancelled'')
            \<and> vendors (snd (cancel ?cbad u promotion_id w)) = vendors w
            \<and> console (snd (cancel ?cbad u promotion_id w))
                = console w @ [''Error updating vendor profile:'']"
    if ok: "code (fst (cancel ?cgood u promotion_id w)) = 200"
  proof -
    from ok C1 have c: "code (fst (cancel ?cbad u promotion_id w)) = 200" by simp
    have f: "faults ?cbad 1 = Some m" by (simp add: with_fault_sel)
    show ?thesis using cancel_done [OF c f] by simp
  qed
  show ?thesis using P1 P2 P3 C1 C2 C3 by blast
qed

theorem secondary_write_failure_is_swallowed_witness:
  "code (fst (purchase (with_fault (ex_env 1736935200000) 2 None) (Some ex_vendor_user)
       (ex_body (JNum 2999) (JStr ''1 Month'')) ex_world)) = 201
   \<and> fst (purchase (with_fault (ex_env 1736935200000) 2 (Some ''timeout'')) (Some ex_vendor_user)
       (ex_body (JNum 2999) (JStr ''1 Month'')) ex_world)
      = fst (purchase (with_fault (ex_env 1736935200000) 2 None) (Some ex_vendor_user)
       (ex_body (JNum 2999) (JStr ''1 Month'')) ex_world)
   \<and> success (fst (purchase (with_fault (ex_env 1736935200000) 2 (Some ''timeout''))
       (Some ex_vendor_user) (ex_body (JNum 2999) (JStr ''1 Month'')) ex_world))
   \<and> vendors (snd (purchase (with_fault (ex_env 1736935200000) 2 (Some ''timeout''))
       (Some ex_vendor_user) (ex_body (JNum 2999) (JStr ''1 Month'')) ex_world))
      = [ex_vendor_row]
   \<and> console (snd (purchase (with_fault (ex_env 1736935200000) 2 (Some ''timeout''))
       (Some ex_vendor_user) (ex_body (JNum 2999) (JStr ''1 Month'')) ex_world))
      = [''Error updating vendor profile:'']
   \<and> code (fst (cancel (with_fault (ex_env 1736935200000) 1 None) (Some ex_vendor_user) ''p0''
       (ex_ledger ''active''))) = 200
   \<and> success (fst (cancel (with_fault (ex_env 1736935200000) 1 (Some ''timeout''))
       (Some ex_vendor_user) ''p0'' (ex_ledger ''active'')))
   \<and> vendors (snd (cancel (with_fault (ex_env 1736935200000) 1 (Some ''timeout''))
       (Some ex_vendor_user) ''p0'' (ex_ledger ''active''))) = [ex_vendor_row]
   \<and> console (snd (cancel (with_fault (ex_env 1736935200000) 1 (Some ''timeout''))
       (Some ex_vendor_user) ''p0'' (ex_ledger ''active'')))
      = [''Error updating vendor profile:'']"
proof -
  have h1: "code (fst (purchase (with_fault (ex_env 1736935200000) 2 None) (Some ex_vendor_user)
       (ex_body (JNum 2999) (JStr ''1 Month'')) ex_world)) = 201"
    by (simp add: purchase_def existingPromotion_def purchase_insert_def purchase_row_def
        purchase_endDate_with_fault ex_endDate_jan15 with_fault_sel user_id_def single_def
        parseFloat_def Let_def ex_env_sel ex_defs)
  have h2: "code (fst (cancel (with_fault (ex_env 1736935200000) 1 None) (Some ex_vendor_user)
       ''p0'' (ex_ledger ''active''))) = 200"
    by (simp add: cancel_def with_fault_sel user_id_def single_def Let_def ex_env_sel ex_defs)
  have v: "vendors ex_world = [ex_vendor_row]" "console ex_world = []"
    "vendors (ex_ledger ''active'') = [ex_vendor_row]" "console (ex_ledger ''active'') = []"
    by (simp_all add: ex_world_def ex_ledger_def)
  note P = secondary_write_failure_is_swallowed [of "ex_env 1736935200000" "''timeout''"
        "Some ex_vendor_user" "ex_body (JNum 2999) (JStr ''1 Month'')" ex_world "''p0''"]
  note C = secondary_write_failure_is_swallowed [of "ex_env 1736935200000" "''timeout''"
        "Some ex_vendor_user" "ex_body (JNum 2999) (JStr ''1 Month'')" "ex_ledger ''active''" "''p0''"]
  from P h1 have p:
    "fst (purchase (with_fault (ex_env 1736935200000) 2 (Some ''timeout'')) (Some ex_vendor_user)
       (ex_body (JNum 2999) (JStr ''1 Month'')) ex_world)
      = fst (purchase (with_fault (ex_env 1736935200000) 2 None) (Some ex_vendor_user)
       (ex_body (JNum 2999) (JStr ''1 Month'')) ex_world)"
    "success (fst (purchase (with_fault (ex_env 1736935200000) 2 (Some ''timeout''))
       (Some ex_vendor_user) (ex_body (JNum 2999) (JStr ''1 Month'')) ex_world))"
    "vendors (snd (purchase (with_fault (ex_env 1736935200000) 2 (Some ''timeout''))
       (Some ex_vendor_user) (ex_body (JNum 2999) (JStr ''1 Month'')) ex_world))
      = vendors ex_world"
    "console (snd (purchase (with_fault (ex_env 1736935200000) 2 (Some ''timeout''))
       (Some ex_vendor_user) (ex_body (JNum 2999) (JStr ''1 Month'')) ex_world))
      = console ex_world @ [''Error updating vendor profile:'']"
    by blast+
  from C h2 have c:
    "success (fst (cancel (with_fault (ex_env 1736935200000) 1 (Some ''timeout''))
       (Some ex_vendor_user) ''p0'' (ex_ledger ''active'')))"
    "vendors (snd (cancel (with_fault (ex_env 1736935200000) 1 (Some ''timeout''))
       (Some ex_vendor_user) ''p0'' (ex_ledger ''active''))) = vendors (ex_ledger ''active'')"
    "console (snd (cancel (with_fault (ex_env 1736935200000) 1 (Some ''timeout''))
       (Some ex_vendor_user) ''p0'' (ex_ledger ''active'')))
      = console (ex_ledger ''active'') @ [''Error updating vendor profile:'']"
    by blast+
  show ?thesis
    using h1 h2 p c unfolding v by (simp only: append_Nil simp_thms)
qed

subsection \<open>One active promotion per vendor (C1)\<close>

lemma filter_key_at_most_one:
  "distinct (map f xs) \<Longrightarrow> length (filter (\<lambda>x. f x = v) xs) \<le> 1"
proof (induction xs)
  case Nil
  then show ?case by simp
next
  case (Cons x xs)
  show ?case
  proof (cases "f x = v")
    case True
    from Cons.prems have "f x \<notin> f ` set xs" by simp
    with True have "\<forall>y \<in> set xs. f y \<noteq> v" by (metis imageI)
    then have "filter (\<lambda>x. f x = v) xs = []" by (simp add: filter_empty_conv)
    with True show ?thesis by simp
  next
    case False
    with Cons show ?thesis by simp
  qed
qed

lemma active_of_vendor_at_most_one:
  assumes "one_active_per_vendor w"
  shows "length (filter (\<lambda>p. vendor_id p = v \<and> status p = ''active'') (vendor_promotions w)) \<le> 1"
proof -
  have "filter (\<lambda>p. vendor_id p = v \<and> status p = ''active'') (vendor_promotions w)
      = filter (\<lambda>p. vendor_id p = v) (filter (\<lambda>p. status p = ''active'') (vendor_promotions w))"
    by (simp add: conj_commute)
  then show ?thesis
    using filter_key_at_most_one [of vendor_id "filter (\<lambda>p. status p = ''active'') (vendor_promotions w)" v]
      assms
    by (simp add: one_active_per_vendor_def)
qed

lemma single_Inr_iff: "single xs = Inr x \<longleftrightarrow> xs = [x]"
  by (auto simp add: single_def split: list.splits)

lemma short_list_cases: "length xs \<le> 1 \<Longrightarrow> xs = [] \<or> (\<exists>x. xs = [x])"
  by (cases xs) auto

lemma existingPromotion_None:
  assumes "one_active_per_vendor w" and "faults e 0 = None"
    and "existingPromotion e v w = None"
  shows "v \<notin> set (map vendor_id (filter (\<lambda>p. status p = ''active'') (vendor_promotions w)))"
proof -
  let ?xs = "filter (\<lambda>p. vendor_id p = v \<and> status p = ''active'') (vendor_promotions w)"
  from assms(2,3) have "\<forall>x. single ?xs \<noteq> Inr x"
    by (auto simp add: existingPromotion_def split: sum.splits)
  then have "\<forall>x. ?xs \<noteq> [x]" by (simp add: single_Inr_iff)
  with short_list_cases [OF active_of_vendor_at_most_one [OF assms(1), of v]]
  have "?xs = []" by blast
  then show ?thesis by (auto simp add: filter_empty_conv)
qed

lemma existingPromotion_Some:
  assumes "one_active_per_vendor w" and "faults e 0 = None"
    and "p \<in> set (vendor_promotions w)" and "vendor_id p = v" and "status p = ''active''"
  shows "existingPromotion e v w \<noteq> None"
proof -
  let ?xs = "filter (\<lambda>p. vendor_id p = v \<and> status p = ''active'') (vendor_promotions w)"
  from assms(3,4,5) have "p \<in> set ?xs" by simp
  then have "?xs \<noteq> []" by (metis empty_iff empty_set)
  with short_list_cases [OF active_of_vendor_at_most_one [OF assms(1), of v]]
  obtain x where "?xs = [x]" by blast
  then have "single ?xs = Inr x" by (simp add: single_Inr_iff)
  with assms(2) show ?thesis by (simp add: existingPromotion_def)
qed

lemma purchase_not_created:
  assumes "code (fst (purchase e u b w)) \<noteq> 201"
  shows "vendor_promotions (snd (purchase e u b w)) = vendor_promotions w"
proof (cases "user_id u")
  case None
  then show ?thesis by (simp add: purchase_def)
next
  case v: (Some vendorId)
  show ?thesis
  proof (cases "vendorId = [] \<or> \<not> truthy (req_package_id b) \<or> \<not> truthy (req_package_name b)
                  \<or> \<not> truthy (req_package_price b) \<or> \<not> truthy (req_package_duration b)
                  \<or> existingPromotion e vendorId w \<noteq> None")
    case True
    then show ?thesis using v by (auto simp add: purchase_def)
  next
    case ok: False
    show ?thesis
    proof (cases "parseFloat (StringNumericPrefix e) (req_package_price b)")
      case (Inl x)
      then show ?thesis using v ok by (simp add: purchase_def)
    next
      case pf: (Inr price)
      show ?thesis
      proof (cases "purchase_endDate e (req_package_duration b)")
        case None
        then show ?thesis using v ok pf by (simp add: purchase_def)
      next
        case (Some endDate)
        then have eq: "purchase e u b w = purchase_insert e vendorId b price endDate w"
          using v ok pf by (simp add: purchase_def)
        show ?thesis
        proof (cases "faults e 1")
          case None
          with assms eq show ?thesis by (simp add: purchase_insert_code)
        next
          case (Some m)
          then show ?thesis by (simp add: eq purchase_insert_failed)
        qed
      qed
    qed
  qed
qed

lemma purchase_preserves_one_active:
  assumes inv: "one_active_per_vendor w" and ans: "faults e 0 = None"
  shows "one_active_per_vendor (snd (purchase e u b w))"
proof (cases "code (fst (purchase e u b w)) = 201")
  case False
  then show ?thesis
    using inv purchase_not_created [OF False] by (simp add: one_active_per_vendor_def)
next
  case True
  then obtain vendorId price endDate where
    ex: "existingPromotion e vendorId w = None" and f1: "faults e 1 = None"
    and eq: "purchase e u b w = purchase_insert e vendorId b price endDate w"
    by (rule purchase_created)
  have new: "vendor_id (purchase_row e vendorId b price endDate) = vendorId"
    "status (purchase_row e vendorId b price endDate) = ''active''"
    by (simp_all add: purchase_row_def)
  show ?thesis
    using inv existingPromotion_None [OF inv ans ex] new
    by (simp add: one_active_per_vendor_def eq purchase_insert_done(2) [OF f1])
qed

lemma filter_active_cancelled:
  "filter (\<lambda>p. status p = ''active'')
     (map (\<lambda>q. if hit q then q\<lparr>status := ''cancelled'', cancelled_at := c\<rparr> else q) ps)
   = filter (\<lambda>q. \<not> hit q) (filter (\<lambda>p. status p = ''active'') ps)"
  by (induction ps) simp_all

lemma cancel_ledger:
  "vendor_promotions (snd (cancel e u promotion_id w)) = vendor_promotions w
   \<or> (\<exists>hit c. vendor_promotions (snd (cancel e u promotion_id w))
         = map (\<lambda>q. if hit q then q\<lparr>status := ''cancelled'', cancelled_at := c\<rparr> else q)
             (vendor_promotions w))"
proof (cases "user_id u")
  case None
  then show ?thesis by (simp add: cancel_def)
next
  case v: (Some vendorId)
  define hit :: "promotion \<Rightarrow> bool"
    where "hit = (\<lambda>p. id_p p = promotion_id \<and> vendor_id p = vendorId)"
  show ?thesis
  proof (cases "vendorId = [] \<or> faults e 0 \<noteq> None")
    case True
    then show ?thesis using v by (auto simp add: cancel_def Let_def)
  next
    case ok: False
    show ?thesis
    proof (cases "single (filter hit (vendor_promotions w))")
      case (Inl err)
      then show ?thesis using v ok by (auto simp add: cancel_def Let_def hit_def)
    next
      case (Inr p)
      then have "vendor_promotions (snd (cancel e u promotion_id w))
         = map (\<lambda>q. if hit q then q\<lparr>status := ''cancelled'', cancelled_at := Some (dates e 0)\<rparr>
                    else q) (vendor_promotions w)"
        using v ok by (cases "faults e 1") (auto simp add: cancel_def Let_def hit_def)
      then show ?thesis by blast
    qed
  qed
qed

lemma distinct_map_filter_conj:
  "distinct (map f (filter P xs)) \<Longrightarrow> distinct (map f (filter (\<lambda>x. P x \<and> Q x) xs))"
  using distinct_map_filter [of f "filter P xs" Q] by simp

lemma cancel_preserves_one_active:
  assumes "one_active_per_vendor w"
  shows "one_active_per_vendor (snd (cancel e u promotion_id w))"
  using cancel_ledger [of e u promotion_id w] assms
  by (auto simp add: one_active_per_vendor_def filter_active_cancelled
      intro: distinct_map_filter_conj)

lemma step_preserves_one_active:
  "one_active_per_vendor w \<Longrightarrow> check_answered r \<Longrightarrow> one_active_per_vendor (step w r)"
  by (cases r) (simp_all add: purchase_preserves_one_active cancel_preserves_one_active)

lemma run_preserves_one_active:
  "one_active_per_vendor w \<Longrightarrow> \<forall>r \<in> set rs. check_answered r
     \<Longrightarrow> one_active_per_vendor (run w rs)"
  unfolding run_def
  by (induction rs arbitrary: w) (simp_all add: step_preserves_one_active)

text \<open>
  While every purchase has its query for an active promotion answered by the database,
  the invariant is kept.  Start from a ledger in which no vendor has two promotions with
  the stored status active (an empty ledger, for one), and let any sequence of purchases
  and cancellations run one after the other, each purchase with its query answered.  Then
  after every prefix of the sequence every vendor has at most one promotion with status
  active; and in the state reached, a purchase (with its package fields present) by a
  vendor for whom the query finds an active promotion fails with the conflict response,
  status 400, and inserts nothing: the tables are as before.
\<close>

lemma one_active_when_checks_answered:
  assumes "one_active_per_vendor w" and "\<forall>r \<in> set rs. check_answered r"
  shows "(\<forall>k v. length (filter (\<lambda>p. vendor_id p = v \<and> status p = ''active'')
                         (vendor_promotions (run w (take k rs)))) \<le> 1)
         \<and> (\<forall>e u b vendorId p.
               faults e 0 = None \<and> user_id u = Some vendorId \<and> vendorId \<noteq> []
               \<and> truthy (req_package_id b) \<and> truthy (req_package_name b)
               \<and> truthy (req_package_price b) \<and> truthy (req_package_duration b)
               \<and> p \<in> set (vendor_promotions (run w rs))
               \<and> vendor_id p = vendorId \<and> status p = ''active''
               \<longrightarrow> purchase e u b (run w rs) =
                     (failure 400
                        (Text ''You already have an active promotion. Please wait for it to expire.''),
                      run w rs))"
proof (intro conjI allI impI)
  fix k v
  have "\<forall>r \<in> set (take k rs). check_answered r"
    using assms(2) by (meson in_set_takeD)
  then have "one_active_per_vendor (run w (take k rs))"
    by (rule run_preserves_one_active [OF assms(1)])
  then show "length (filter (\<lambda>p. vendor_id p = v \<and> status p = ''active'')
                         (vendor_promotions (run w (take k rs)))) \<le> 1"
    by (rule active_of_vendor_at_most_one)
next
  fix e :: env and u :: "user option" and b :: purchase_body
    and vendorId :: string and p :: promotion
  assume h: "faults e 0 = None \<and> user_id u = Some vendorId \<and> vendorId \<noteq> []
               \<and> truthy (req_package_id b) \<and> truthy (req_package_name b)
               \<and> truthy (req_package_price b) \<and> truthy (req_package_duration b)
               \<and> p \<in> set (vendor_promotions (run w rs))
               \<and> vendor_id p = vendorId \<and> status p = ''active''"
  have inv: "one_active_per_vendor (run w rs)"
    by (rule run_preserves_one_active [OF assms])
  from h have "existingPromotion e vendorId (run w rs) \<noteq> None"
    using existingPromotion_Some [OF inv, of e p vendorId] by blast
  with h show "purchase e u b (run w rs) =
                     (failure 400
                        (Text ''You already have an active promotion. Please wait for it to expire.''),
                      run w rs)"
    by (simp add: purchase_def)
qed

lemma purchase_endDate_generated_id:
  "purchase_endDate (e\<lparr>generated_id := x\<rparr>) d = purchase_endDate e d"
  by (simp add: purchase_endDate_def Let_def)

lemma ex_endDate_jan15_3:
  "purchase_endDate (ex_env 1736935200000) (JStr ''3 Months'') = Some 1744711200000"
  unfolding purchase_endDate_def ex_env_def by code_simp

lemma ex_run_ledger:
  "map id_p (vendor_promotions (run ex_world ex_requests)) = [''p1'', ''p2'']"
  "map vendor_id (vendor_promotions (run ex_world ex_requests)) = [''v1'', ''v1'']"
  "map status (vendor_promotions (run ex_world ex_requests)) = [''cancelled'', ''active'']"
  by (simp_all add: ex_requests_def run_def purchase_def existingPromotion_def
      purchase_insert_def purchase_row_def purchase_endDate_generated_id ex_endDate_jan15
      ex_endDate_jan15_3 cancel_def user_id_def single_def parseFloat_def Let_def ex_env_sel
      ex_defs)

text \<open>
  The run of purchase, refused purchase, cancellation and purchase, with every query
  answered, as an instance.
\<close>

lemma one_active_when_checks_answered_example:
  "one_active_per_vendor ex_world
   \<and> list_all check_answered ex_requests
   \<and> map status (vendor_promotions (run ex_world ex_requests)) = [''cancelled'', ''active'']
   \<and> (\<forall>k. length (filter (\<lambda>p. vendor_id p = ''v1'' \<and> status p = ''active'')
                    (vendor_promotions (run ex_world (take k ex_requests)))) \<le> 1)
   \<and> purchase (ex_env 1736935200000) (Some ex_vendor_user) (ex_body (JNum 2999) (JStr ''1 Month''))
        (run ex_world ex_requests)
      = (failure 400
           (Text ''You already have an active promotion. Please wait for it to expire.''),
         run ex_world ex_requests)"
proof -
  have h1: "one_active_per_vendor ex_world"
    by (simp add: one_active_per_vendor_def ex_world_def)
  have h2: "\<forall>r \<in> set ex_requests. check_answered r"
    by (simp add: ex_requests_def ex_env_sel)
  note T = one_active_when_checks_answered [OF h1 h2]
  obtain p1 p2 where ps: "vendor_promotions (run ex_world ex_requests) = [p1, p2]"
    and p2: "vendor_id p2 = ''v1''" "status p2 = ''active''"
    using ex_run_ledger(2,3) by (auto simp add: map_eq_Cons_conv)
  have b: "truthy (req_package_id (ex_body (JNum 2999) (JStr ''1 Month'')))"
    "truthy (req_package_name (ex_body (JNum 2999) (JStr ''1 Month'')))"
    "truthy (req_package_price (ex_body (JNum 2999) (JStr ''1 Month'')))"
    "truthy (req_package_duration (ex_body (JNum 2999) (JStr ''1 Month'')))"
    by (simp_all add: ex_body_def)
  have u: "user_id (Some ex_vendor_user) = Some ''v1''" "''v1'' \<noteq> []"
    "faults (ex_env 1736935200000) 0 = None"
    by (simp_all add: user_id_def ex_vendor_user_def ex_env_sel)
  have "p2 \<in> set (vendor_promotions (run ex_world ex_requests))" by (simp add: ps)
  with T b u p2 have c: "purchase (ex_env 1736935200000) (Some ex_vendor_user)
        (ex_body (JNum 2999) (JStr ''1 Month'')) (run ex_world ex_requests)
      = (failure 400
           (Text ''You already have an active promotion. Please wait for it to expire.''),
         run ex_world ex_requests)"
    by blast
  from T have k: "\<forall>k. length (filter (\<lambda>p. vendor_id p = ''v1'' \<and> status p = ''active'')
                    (vendor_promotions (run ex_world (take k ex_requests)))) \<le> 1"
    by blast
  have a: "list_all check_answered ex_requests"
    using h2 by (simp add: list_all_iff)
  show ?thesis using h1 a c k ex_run_ledger(3) by blast
qed

text \<open>The run in which the query of the second purchase fails.\<close>

lemma ex_check_fails_run:
  "one_active_per_vendor ex_world"
  "one_active_per_vendor (run ex_world (take 1 ex_requests_check_fails))"
  "map status (vendor_promotions (run ex_world (take 1 ex_requests_check_fails)))
     = [''active'']"
  "code (fst (purchase
      (with_fault ((ex_env 1736935200000)\<lparr>generated_id := ''p2''\<rparr>) 0 (Some ''fetch failed''))
      (Some ex_vendor_user) (ex_body (JNum 2999) (JStr ''1 Month''))
      (run ex_world (take 1 ex_requests_check_fails)))) = 201"
  "map id_p (vendor_promotions (run ex_world ex_requests_check_fails)) = [''p1'', ''p2'']"
  "map vendor_id (vendor_promotions (run ex_world ex_requests_check_fails)) = [''v1'', ''v1'']"
  "map status (vendor_promotions (run ex_world ex_requests_check_fails))
     = [''active'', ''active'']"
  "length (filter (\<lambda>p. vendor_id p = ''v1'' \<and> status p = ''active'')
      (vendor_promotions (run ex_world ex_requests_check_fails))) = 2"
  by (simp_all add: ex_requests_check_fails_def run_def one_active_per_vendor_def purchase_def
      existingPromotion_def purchase_insert_def purchase_row_def purchase_endDate_generated_id
      purchase_endDate_with_fault ex_endDate_jan15 with_fault_sel user_id_def single_def
      parseFloat_def Let_def ex_env_sel ex_defs)

text \<open>
  Claim C1: for every vendor and every sequence of Purchase and Cancel operations carried
  out one after the other, at most one promotion with status active exists for that vendor
  at any instant.  The handler does not keep this.  It reads only the \<^verbatim>\<open>data\<close> of its
  query for an active promotion (lines 76 to 83) and never the \<^verbatim>\<open>error\<close>, which every
  other database call of the file tests; a query that fails is therefore taken for a
  query that found nothing.  On the empty ledger, vendor \<open>v1\<close> buys a promotion and then
  buys again, and the query of the second purchase fails while its insert is carried
  out: the second purchase is answered 201, not with the conflict response, and the
  ledger then holds two promotions of \<open>v1\<close> with status active.
\<close>

theorem purchase_after_failed_check_query:
  "one_active_per_vendor ex_world
   \<and> one_active_per_vendor (run ex_world (take 1 ex_requests_check_fails))
   \<and> map status (vendor_promotions (run ex_world (take 1 ex_requests_check_fails)))
       = [''active'']
   \<and> code (fst (purchase
        (with_fault ((ex_env 1736935200000)\<lparr>generated_id := ''p2''\<rparr>) 0 (Some ''fetch failed''))
        (Some ex_vendor_user) (ex_body (JNum 2999) (JStr ''1 Month''))
        (run ex_world (take 1 ex_requests_check_fails)))) = 201
   \<and> map id_p (vendor_promotions (run ex_world ex_requests_check_fails)) = [''p1'', ''p2'']
   \<and> map vendor_id (vendor_promotions (run ex_world ex_requests_check_fails))
       = [''v1'', ''v1'']
   \<and> map status (vendor_promotions (run ex_world ex_requests_check_fails))
       = [''active'', ''active'']
   \<and> length (filter (\<lambda>p. vendor_id p = ''v1'' \<and> status p = ''active'')
        (vendor_promotions (run ex_world ex_requests_check_fails))) = 2"
  by (intro conjI ex_check_fails_run)

theorem purchase_after_failed_check_query_witness:
  "\<not> one_active_per_vendor (run ex_world ex_requests_check_fails)
   \<and> \<not> length (filter (\<lambda>p. vendor_id p = ''v1'' \<and> status p = ''active'')
          (vendor_promotions (run ex_world ex_requests_check_fails))) \<le> 1"
proof -
  from purchase_after_failed_check_query
  have v: "map vendor_id (vendor_promotions (run ex_world ex_requests_check_fails))
       = [''v1'', ''v1'']"
    and s: "map status (vendor_promotions (run ex_world ex_requests_check_fails))
       = [''active'', ''active'']"
    and n: "length (filter (\<lambda>p. vendor_id p = ''v1'' \<and> status p = ''active'')
        (vendor_promotions (run ex_world ex_requests_check_fails))) = 2"
    by simp_all
  from v s obtain p q where pq: "vendor_promotions (run ex_world ex_requests_check_fails) = [p, q]"
    and f: "vendor_id p = ''v1''" "vendor_id q = ''v1''" "status p = ''active''"
      "status q = ''active''"
    by (auto simp add: map_eq_Cons_conv)
  have "\<not> one_active_per_vendor (run ex_world ex_requests_check_fails)"
    by (simp add: one_active_per_vendor_def pq f)
  with n show ?thesis by simp
qed

subsection \<open>The end date of a promotion (C3)\<close>

lemma ex_jan31_fields:
  "MonthFromTime 1738317600000 = 0" "DateFromTime 1738317600000 = 31"
  "MonthFromTime 1740996000000 = 2" "DateFromTime 1740996000000 = 3"
  "\<not> spec_months_later (\<lambda>t isUTC. 0) 1 1738317600000 1740996000000"
  "spec_months_later (\<lambda>t isUTC. 0) 1 1738317600000 1740736800000"
  by code_simp+

text \<open>
  The month is advanced on the local calendar of the host.  On a host in the zone of New
  York, the date 2025-02-15T10:00:00.000Z (05:00 local time) moved on by one month is
  2025-03-15T09:00:00.000Z (05:00 local time, after the change to daylight saving time).
\<close>

lemma ex_endDate_new_york:
  "purchase_endDate ((ex_env 1739613600000)\<lparr>LocalTZA := ex_new_york\<rparr>) (JStr ''1 Month'')
     = Some 1742029200000"
  "spec_months_later ex_new_york 1 1739613600000 1742029200000"
  unfolding purchase_endDate_def ex_env_def by code_simp+

text \<open>
  Claim C3: for every successful Purchase, the end time of the created promotion equals
  its start time advanced by exactly 1, 3 or 6 calendar months, according to the duration
  argument.  The handler advances the month with \<^verbatim>\<open>endDate.setMonth(endDate.getMonth() + 1)\<close>
  (lines 94 to 100), which keeps the day of the month and lets it run over when the month
  reached is shorter.  A purchase for "1 Month" made on 2025-01-31T10:00:00.000Z, on a
  host in UTC, succeeds and stores the start 2025-01-31T10:00:00.000Z and the end
  2025-03-03T10:00:00.000Z: the end lies in March, two calendar months after the start in
  January, and is not the start advanced by one calendar month.
\<close>

theorem purchase_on_month_end_runs_over:
  "code (fst (purchase (ex_env 1738317600000) (Some ex_vendor_user)
       (ex_body (JNum 2999) (JStr ''1 Month'')) ex_world)) = 201
   \<and> map start_date (vendor_promotions (snd (purchase (ex_env 1738317600000)
       (Some ex_vendor_user) (ex_body (JNum 2999) (JStr ''1 Month'')) ex_world)))
      = [1738317600000]
   \<and> map end_date (vendor_promotions (snd (purchase (ex_env 1738317600000)
       (Some ex_vendor_user) (ex_body (JNum 2999) (JStr ''1 Month'')) ex_world)))
      = [1740996000000]
   \<and> spec_duration_months (JStr ''1 Month'') = Some 1
   \<and> MonthFromTime 1738317600000 = 0 \<and> DateFromTime 1738317600000 = 31
   \<and> MonthFromTime 1740996000000 = 2 \<and> DateFromTime 1740996000000 = 3
   \<and> \<not> spec_months_later (\<lambda>t isUTC. 0) 1 1738317600000 1740996000000"
  by (simp add: purchase_def existingPromotion_def purchase_insert_def purchase_row_def
      ex_endDate_jan31 ex_jan31_fields spec_duration_months_def user_id_def single_def
      parseFloat_def Let_def ex_env_sel ex_defs)

text \<open>
  The start advanced by one calendar month is 2025-02-28T10:00:00.000Z, 1740736800000;
  the end that is stored is three days later.
\<close>

theorem purchase_on_month_end_runs_over_witness:
  "spec_months_later (\<lambda>t isUTC. 0) 1 1738317600000 1740736800000
   \<and> map end_date (vendor_promotions (snd (purchase (ex_env 1738317600000)
       (Some ex_vendor_user) (ex_body (JNum 2999) (JStr ''1 Month'')) ex_world)))
      = [1740736800000 + 3 * msPerDay]"
  using purchase_on_month_end_runs_over
  by (simp add: ex_jan31_fields msPerDay_def)

end
